theory Spec2Isabelle
  imports Main
begin

section \<open>Python values, exceptions and the framework's objects\<close>

text \<open>
  The values that travel through the accessor are dynamically typed. A file object is
  either a plain \<open>django.core.files.base.File\<close> (which includes uploaded files and the
  object that \<open>_open_as_django_file\<close> builds) or a \<open>FieldFile\<close>, the subclass Django
  hands out for model file fields. A file carries its \<open>name\<close> attribute (any value:
  a string, or \<open>None\<close> for an unnamed file) and its content.
\<close>

datatype file_kind = PlainFile | FieldFile

datatype pyval =
    PNone
  | PBool bool
  | PInt int
  | PStr string
  | PFile file_kind pyval string

text \<open>
  Python truthiness (\<open>not value\<close>, \<open>x or y\<close>). \<open>File.__bool__\<close> is
  \<open>bool(self.name)\<close>, and \<open>FieldFile\<close> inherits it.
\<close>

primrec truthy :: "pyval \<Rightarrow> bool" where
  "truthy PNone = False"
| "truthy (PBool b) = b"
| "truthy (PInt i) = (i \<noteq> 0)"
| "truthy (PStr s) = (s \<noteq> [])"
| "truthy (PFile k nm c) = truthy nm"

text \<open>\<open>isinstance(value, (FieldFile, File))\<close> and
  \<open>isinstance(value, File) and not isinstance(value, FieldFile)\<close>.\<close>

primrec isinstance_File :: "pyval \<Rightarrow> bool" where
  "isinstance_File PNone = False"
| "isinstance_File (PBool b) = False"
| "isinstance_File (PInt i) = False"
| "isinstance_File (PStr s) = False"
| "isinstance_File (PFile k nm c) = True"

primrec is_new_upload :: "pyval \<Rightarrow> bool" where
  "is_new_upload PNone = False"
| "is_new_upload (PBool b) = False"
| "is_new_upload (PInt i) = False"
| "is_new_upload (PStr s) = False"
| "is_new_upload (PFile k nm c) = (k = PlainFile)"

text \<open>The \<open>name\<close> attribute of a file object (\<open>value.name\<close>).\<close>

primrec file_name :: "pyval \<Rightarrow> pyval" where
  "file_name PNone = PNone"
| "file_name (PBool b) = PNone"
| "file_name (PInt i) = PNone"
| "file_name (PStr s) = PNone"
| "file_name (PFile k nm c) = nm"

text \<open>
  Exceptions, all of them instances of Python's \<open>Exception\<close> (what \<open>except Exception\<close>
  catches). \<open>ObjectDoesNotExist\<close> stands for itself and its per-model \<open>DoesNotExist\<close>
  subclasses; \<open>OtherError\<close> is any further exception a backend may raise.
\<close>

datatype exc =
    KeyError string
  | ValueError
  | TypeError
  | ObjectDoesNotExist
  | MultipleObjectsReturned
  | ProgrammingError
  | FieldDoesNotExist
  | LookupError
  | PermissionDenied
  | OSError
  | OtherError string

text \<open>Model fields: the classes that matter are \<open>FileField\<close> and its subclass
  \<open>ImageField\<close>.\<close>

datatype field_class = CharField | TextField | IntegerField | BooleanField | FileField | ImageField

fun isinstance_FileField :: "field_class \<Rightarrow> bool" where
  "isinstance_FileField FileField = True"
| "isinstance_FileField ImageField = True"
| "isinstance_FileField _ = False"

text \<open>
  A settings-group model class, as far as this code looks at it: \<open>_meta.app_label\<close>,
  \<open>_meta.model_name\<close>, \<open>name_from_class()\<close>, the fields that \<open>_meta.get_field\<close> knows,
  \<open>_internal_fields\<close>, and the names that are attributes of an instance without being
  model fields (methods, properties, class attributes). The model classes themselves are
  declared outside the files under verification, so they are data here.
\<close>

record model_meta =
  app_label :: string
  model_name :: string
  name_from_class :: string
  model_fields :: "(string \<times> field_class) list"
  internal_fields :: "string list"
  other_attributes :: "string list"

definition get_field :: "model_meta \<Rightarrow> string \<Rightarrow> exc + field_class" where
  "get_field m field_name =
     (case map_of (model_fields m) field_name of
        None \<Rightarrow> Inl FieldDoesNotExist
      | Some f \<Rightarrow> Inr f)"

text \<open>\<open>hasattr(obj, name)\<close> on an instance of the model: every field is an attribute.\<close>

definition hasattr :: "model_meta \<Rightarrow> string \<Rightarrow> bool" where
  "hasattr obj attr_name =
     (attr_name \<in> fst ` set (model_fields obj) \<or> attr_name \<in> set (other_attributes obj))"

section \<open>The relational store\<close>

text \<open>
  An \<open>ApplicationSetting\<close> row, with the \<open>group_name\<close> of the group it points to.
  The primary key of a row is its position in the table: this code never deletes rows.
  \<open>db_fault\<close> is the error every query raises while the database is unusable
  (\<open>ProgrammingError\<close> when the tables do not exist yet).
\<close>

record application_setting =
  s_group_name :: string
  s_name :: string
  s_value :: pyval

record database =
  db_fault :: "exc option"
  setting_groups :: "(string \<times> nat) list"
  app_settings :: "application_setting list"

text \<open>The primary keys of the rows that a \<open>get(group__group_name=g, name=n)\<close> selects.\<close>

definition matching :: "database \<Rightarrow> string \<Rightarrow> string \<Rightarrow> nat list" where
  "matching d g n =
     filter (\<lambda>i. s_group_name (app_settings d ! i) = g \<and> s_name (app_settings d ! i) = n)
       [0 ..< length (app_settings d)]"

text \<open>\<open>Manager.get\<close>: exactly one row, or \<open>DoesNotExist\<close>, or
  \<open>MultipleObjectsReturned\<close>; the row comes back with its primary key.\<close>

definition objects_get :: "database \<Rightarrow> string \<Rightarrow> string \<Rightarrow> exc + (nat \<times> application_setting)" where
  "objects_get d g n =
     (case db_fault d of
        Some e \<Rightarrow> Inl e
      | None \<Rightarrow>
          (case matching d g n of
             [] \<Rightarrow> Inl ObjectDoesNotExist
           | [i] \<Rightarrow> Inr (i, app_settings d ! i)
           | _ \<Rightarrow> Inl MultipleObjectsReturned))"

text \<open>\<open>setting.save()\<close>: the row with the instance's primary key takes the instance's
  fields.\<close>

definition row_save :: "nat \<Rightarrow> application_setting \<Rightarrow> database \<Rightarrow> database" where
  "row_save pk setting d = d\<lparr>app_settings := (app_settings d)[pk := setting]\<rparr>"

section \<open>The framework as a parameter\<close>

text \<open>
  What the accessor calls and does not define: \<open>djpwr.managers.get_model\<close>, the
  \<open>SettingGroup\<close> manager's \<open>touch_last_modified\<close>, and the storage backend behind
  \<open>default_storage\<close> (delete, save, open), over any type \<open>'s\<close> of storage states.
  Each may raise; a storage call that raises may still have changed the storage.
\<close>

record 's framework =
  get_model :: "string \<Rightarrow> exc + model_meta"
  touch_last_modified :: "string \<Rightarrow> (string \<times> nat) list \<Rightarrow> exc + (string \<times> nat) list"
  storage_delete :: "pyval \<Rightarrow> 's \<Rightarrow> exc option \<times> 's"
  storage_save :: "string \<Rightarrow> pyval \<Rightarrow> 's \<Rightarrow> (exc + string) \<times> 's"
  storage_open :: "pyval \<Rightarrow> 's \<Rightarrow> exc + string"

record 's world =
  db :: database
  store :: "'s"

section \<open>The module functions of the accessor\<close>

definition setting_model_field :: "'s framework \<Rightarrow> string \<Rightarrow> string \<Rightarrow> field_class option" where
  "setting_model_field fw group_name setting_name =
     (case get_model fw group_name of
        Inl e \<Rightarrow> None
      | Inr model \<Rightarrow>
          (case get_field model setting_name of
             Inl e \<Rightarrow> None
           | Inr field \<Rightarrow> Some field))"

definition is_file_setting :: "'s framework \<Rightarrow> string \<Rightarrow> string \<Rightarrow> bool" where
  "is_file_setting fw group_name setting_name =
     (case setting_model_field fw group_name setting_name of
        None \<Rightarrow> False
      | Some field \<Rightarrow> isinstance_FileField field)"

text \<open>\<open>os.path.basename\<close> (POSIX): what follows the last slash.\<close>

definition basename :: "string \<Rightarrow> string" where
  "basename p = rev (takeWhile (\<lambda>c. c \<noteq> CHR ''/'') (rev p))"

text \<open>\<open>os.path.basename\<close> raises \<open>TypeError\<close> on a file name that is not a string.\<close>

definition storage_path_for :: "string \<Rightarrow> string \<Rightarrow> string \<Rightarrow> pyval \<Rightarrow> exc + string" where
  "storage_path_for app model setting_name filename =
     (case filename of
        PStr s \<Rightarrow>
          Inr (''app_settings/'' @ app @ ''/'' @ model @ ''/'' @ setting_name @ ''/''
               @ (if basename s = [] then ''upload'' else basename s))
      | _ \<Rightarrow> Inl TypeError)"

definition delete_storage_name :: "'s framework \<Rightarrow> pyval \<Rightarrow> 's \<Rightarrow> (exc + unit) \<times> 's" where
  "delete_storage_name fw nm st =
     (if \<not> truthy nm then (Inr (), st)
      else (case storage_delete fw nm st of
              (Some e, st') \<Rightarrow> (Inr (), st')
            | (None, st') \<Rightarrow> (Inr (), st')))"

definition extract_storage_value :: "pyval \<Rightarrow> pyval" where
  "extract_storage_value v =
     (if isinstance_File v
      then (if truthy (file_name v) then file_name v else PStr [])
      else v)"

definition open_as_django_file :: "'s framework \<Rightarrow> pyval \<Rightarrow> 's \<Rightarrow> exc + pyval" where
  "open_as_django_file fw storage_name st =
     (if \<not> truthy storage_name then Inr PNone
      else (case storage_open fw storage_name st of
              Inl e \<Rightarrow> Inr PNone
            | Inr f \<Rightarrow> Inr (PFile PlainFile storage_name f)))"

section \<open>AppSettingDict\<close>

text \<open>\<open>str.split(".")\<close> and the unpacking into three names, which raises
  \<open>ValueError\<close> unless there are exactly three parts.\<close>

fun split_on :: "char \<Rightarrow> string \<Rightarrow> string list" where
  "split_on sep [] = [[]]"
| "split_on sep (c # cs) =
     (if c = sep then [] # split_on sep cs
      else (case split_on sep cs of
              [] \<Rightarrow> [[c]]
            | p # ps \<Rightarrow> (c # p) # ps))"

definition unpack3 :: "string list \<Rightarrow> exc + (string \<times> string \<times> string)" where
  "unpack3 parts =
     (case parts of
        [a, b, c] \<Rightarrow> Inr (a, b, c)
      | _ \<Rightarrow> Inl ValueError)"

definition split_label :: "string \<Rightarrow> exc + (string \<times> string \<times> string)" where
  "split_label setting_label = unpack3 (split_on CHR ''.'' setting_label)"

definition getitem_log_message :: "string \<Rightarrow> string" where
  "getitem_log_message setting_label =
     ''Catching exception in AppSettingDict.__getitem__ for '' @ setting_label
     @ '', please check if migrations for this app have been run.''"

text \<open>
  \<open>__getitem__\<close> reads the world and returns its result together with the lines it sent
  to \<open>logger.error\<close>.
\<close>

definition getitem :: "'s framework \<Rightarrow> 's world \<Rightarrow> string \<Rightarrow> (exc + pyval) \<times> string list" where
  "getitem fw w setting_label =
     (case split_label setting_label of
        Inl e \<Rightarrow> (Inl e, [])
      | Inr (app, model, setting_name) \<Rightarrow>
          (let group_name = app @ ''.'' @ model in
           case objects_get (db w) group_name setting_name of
             Inl e \<Rightarrow>
               (if e = ProgrammingError then (Inr PNone, [getitem_log_message setting_label])
                else if e = ObjectDoesNotExist then (Inl (KeyError setting_label), [])
                else (Inl e, []))
           | Inr (pk, setting) \<Rightarrow>
               (if is_file_setting fw group_name setting_name
                then (open_as_django_file fw (extract_storage_value (s_value setting)) (store w), [])
                else (Inr (s_value setting), []))))"

definition setitem :: "'s framework \<Rightarrow> string \<Rightarrow> pyval \<Rightarrow> 's world \<Rightarrow> (exc + unit) \<times> 's world" where
  "setitem fw setting_label v w =
     (case split_label setting_label of
        Inl e \<Rightarrow> (Inl e, w)
      | Inr (app, model, setting_name) \<Rightarrow>
          (let group_name = app @ ''.'' @ model in
           case objects_get (db w) group_name setting_name of
             Inl e \<Rightarrow> (Inl e, w)
           | Inr (pk, setting) \<Rightarrow>
               (case touch_last_modified fw (s_group_name setting) (setting_groups (db w)) of
                  Inl e \<Rightarrow> (Inl e, w)
                | Inr gs \<Rightarrow>
                    (let d1 = (db w)\<lparr>setting_groups := gs\<rparr>;
                         old_storage_value = extract_storage_value (s_value setting)
                     in if is_new_upload v
                        then
                          (let st1 = snd (delete_storage_name fw old_storage_value (store w))
                           in case storage_path_for app model setting_name (file_name v) of
                                Inl e \<Rightarrow> (Inl e, \<lparr>db = d1, store = st1\<rparr>)
                              | Inr storage_path \<Rightarrow>
                                  (case storage_save fw storage_path v st1 of
                                     (Inl e, st2) \<Rightarrow> (Inl e, \<lparr>db = d1, store = st2\<rparr>)
                                   | (Inr saved_name, st2) \<Rightarrow>
                                       (Inr (),
                                        \<lparr>db = row_save pk (setting\<lparr>s_value := PStr saved_name\<rparr>) d1,
                                         store = st2\<rparr>)))
                        else
                          (let st1 = (if \<not> truthy v \<and> is_file_setting fw group_name setting_name
                                      then snd (delete_storage_name fw old_storage_value (store w))
                                      else store w)
                           in (Inr (),
                               \<lparr>db = row_save pk (setting\<lparr>s_value := v\<rparr>) d1, store = st1\<rparr>))))))"

definition get :: "'s framework \<Rightarrow> 's world \<Rightarrow> string \<Rightarrow> pyval \<Rightarrow> (exc + pyval) \<times> string list" where
  "get fw w setting_label dflt =
     (case getitem fw w setting_label of
        (Inl (KeyError k), lg) \<Rightarrow> (Inr dflt, lg)
      | (Inl e, lg) \<Rightarrow> (Inl e, lg)
      | (Inr v, lg) \<Rightarrow> (Inr v, lg))"

definition contains :: "'s framework \<Rightarrow> 's world \<Rightarrow> string \<Rightarrow> (exc + bool) \<times> string list" where
  "contains fw w setting_label =
     (case getitem fw w setting_label of
        (Inl (KeyError k), lg) \<Rightarrow> (Inr False, lg)
      | (Inl e, lg) \<Rightarrow> (Inl e, lg)
      | (Inr v, lg) \<Rightarrow> (Inr True, lg))"

section \<open>The admin of a settings group\<close>

text \<open>
  \<open>get_urls\<close> registers two named patterns on the empty route. \<open>wrap(view)\<close> calls
  \<open>admin_site.admin_view(view)\<close>, which dispatches to the view it wraps.
\<close>

datatype admin_view = ChangeView | ChangelistView | AddView | DeleteView | HistoryView

datatype callback = Wrapped admin_view

primrec dispatches_to :: "callback \<Rightarrow> admin_view" where
  "dispatches_to (Wrapped v) = v"

definition wrap :: "admin_view \<Rightarrow> callback" where
  "wrap v = Wrapped v"

record url_pattern =
  route :: string
  url_callback :: callback
  url_name :: string

definition get_urls :: "model_meta \<Rightarrow> url_pattern list" where
  "get_urls model =
     [\<lparr>route = [], url_callback = wrap ChangeView,
       url_name = app_label model @ ''_'' @ model_name model @ ''_change''\<rparr>,
      \<lparr>route = [], url_callback = wrap ChangeView,
       url_name = app_label model @ ''_'' @ model_name model @ ''_changelist''\<rparr>]"

text \<open>
  A request, as far as the admin's own code looks at it: the method, the answers of the
  framework's permission checks for the requesting user, the outcome of the framework's
  form validation (\<open>None\<close> when \<open>form.is_valid()\<close> is false, the items of
  \<open>form.cleaned_data\<close> otherwise) and \<open>all_valid(formsets)\<close>.
\<close>

record request =
  http_method :: string
  has_change_permission :: bool
  has_view_permission :: bool
  form_cleaned_data :: "(string \<times> pyval) list option"
  formsets_valid :: bool

definition has_view_or_change_permission :: "request \<Rightarrow> bool" where
  "has_view_or_change_permission req = (has_view_permission req \<or> has_change_permission req)"

definition has_add_permission :: "model_meta \<Rightarrow> request \<Rightarrow> bool" where
  "has_add_permission model req = False"

datatype response = ResponseChange | ChangeForm

text \<open>\<open>SettingGroup\<close> rows are \<open>(group_name, last_modified)\<close>;
  \<open>get(group_name=g)\<close> on them.\<close>

definition groups_get :: "database \<Rightarrow> string \<Rightarrow> exc + (nat \<times> string \<times> nat)" where
  "groups_get d g =
     (case db_fault d of
        Some e \<Rightarrow> Inl e
      | None \<Rightarrow>
          (case filter (\<lambda>i. fst (setting_groups d ! i) = g) [0 ..< length (setting_groups d)] of
             [] \<Rightarrow> Inl ObjectDoesNotExist
           | [i] \<Rightarrow> Inr (i, setting_groups d ! i)
           | _ \<Rightarrow> Inl MultipleObjectsReturned))"

text \<open>
  A Python \<open>dict\<close> with string keys: a list of pairs with distinct keys, in insertion
  order. \<open>d[k] = v\<close> replaces the value of a key that is present and appends a new key;
  \<open>d.pop(k, None)\<close> removes it; \<open>dict(pairs)\<close> sets the pairs one after the other, so
  the last pair of a key gives its value.
\<close>

fun dict_set :: "string \<Rightarrow> pyval \<Rightarrow> (string \<times> pyval) list \<Rightarrow> (string \<times> pyval) list" where
  "dict_set k v [] = [(k, v)]"
| "dict_set k v ((k', v') # kvs) =
     (if k' = k then (k, v) # kvs else (k', v') # dict_set k v kvs)"

definition dict_pop :: "string \<Rightarrow> (string \<times> pyval) list \<Rightarrow> (string \<times> pyval) list" where
  "dict_pop k kvs = filter (\<lambda>kv. fst kv \<noteq> k) kvs"

definition dict_of :: "(string \<times> pyval) list \<Rightarrow> (string \<times> pyval) list" where
  "dict_of pairs = foldl (\<lambda>d kv. dict_set (fst kv) (snd kv) d) [] pairs"

text \<open>\<open>dict\<close> of the \<open>(name, value)\<close> pairs of the group's settings, taken in row
  order.\<close>

definition get_changeform_initial_data :: "model_meta \<Rightarrow> database \<Rightarrow> exc + (string \<times> pyval) list" where
  "get_changeform_initial_data model d =
     (case db_fault d of
        Some e \<Rightarrow> Inl e
      | None \<Rightarrow>
          Inr (dict_of
                 (map (\<lambda>r. (s_name r, s_value r))
                    (filter (\<lambda>r. s_group_name r = name_from_class model) (app_settings d)))))"

text \<open>
  The loop of the GET branch over a copy of the items of \<open>initial\<close>: for a name that is
  an attribute of the instance, \<open>_meta.get_field\<close> is asked for the field (and raises
  \<open>FieldDoesNotExist\<close> when the attribute is not a model field), the value is set on the
  unsaved instance, and a \<open>FileField\<close>'s entry is popped from \<open>initial\<close>. The result is
  what is left of \<open>initial\<close>.
\<close>

fun hydrate_instance :: "model_meta \<Rightarrow> (string \<times> pyval) list \<Rightarrow> (string \<times> pyval) list
    \<Rightarrow> exc + (string \<times> pyval) list" where
  "hydrate_instance obj [] initial = Inr initial"
| "hydrate_instance obj ((field_name, v) # items) initial =
     (if hasattr obj field_name
      then (case get_field obj field_name of
              Inl e \<Rightarrow> Inl e
            | Inr field \<Rightarrow>
                hydrate_instance obj items
                  (if isinstance_FileField field then dict_pop field_name initial else initial))
      else hydrate_instance obj items initial)"

text \<open>
  \<open>save_model\<close>: the loop over \<open>form.cleaned_data.items()\<close>. An exception of
  \<open>get_field\<close> or of the accessor ends the loop and leaves by the caller.
\<close>

fun save_model :: "'s framework \<Rightarrow> model_meta \<Rightarrow> (string \<times> pyval) list \<Rightarrow> 's world
    \<Rightarrow> (exc + unit) \<times> 's world" where
  "save_model fw obj [] w = (Inr (), w)"
| "save_model fw obj ((field_name, v) # rest) w =
     (if field_name \<in> set (internal_fields obj) then save_model fw obj rest w
      else
        (case get_field obj field_name of
           Inl e \<Rightarrow> (Inl e, w)
         | Inr field \<Rightarrow>
             (if isinstance_FileField field \<and> v = PBool False
              then (case setitem fw (name_from_class obj @ ''.'' @ field_name) PNone w of
                      (Inl e, w') \<Rightarrow> (Inl e, w')
                    | (Inr u, w') \<Rightarrow> save_model fw obj rest w')
              else if isinstance_FileField field \<and> \<not> truthy v
              then save_model fw obj rest w
              else (case setitem fw (name_from_class obj @ ''.'' @ field_name) v w of
                      (Inl e, w') \<Rightarrow> (Inl e, w')
                    | (Inr u, w') \<Rightarrow> save_model fw obj rest w'))))"

text \<open>
  \<open>_changeform_view\<close>, as far as it reads and writes the world. Building the form,
  \<open>save_related\<close>, the change log and the rendering are the framework's; their results
  are the request's \<open>form_cleaned_data\<close> and the two kinds of response. The unsaved
  instance that the two branches fill from the stored settings lives in memory only;
  the POST branch only sets attributes on it.
\<close>

definition changeform_view_inner :: "'s framework \<Rightarrow> model_meta \<Rightarrow> request \<Rightarrow> 's world
    \<Rightarrow> (exc + response) \<times> 's world" where
  "changeform_view_inner fw model req w =
     (case groups_get (db w) (name_from_class model) of
        Inl e \<Rightarrow> (Inl e, w)
      | Inr (pk, group_name, last_modified) \<Rightarrow>
          (if (if http_method req = ''POST'' then \<not> has_change_permission req
               else \<not> has_view_or_change_permission req)
           then (Inl PermissionDenied, w)
           else if http_method req = ''POST''
           then
             (case get_changeform_initial_data model (db w) of
                Inl e \<Rightarrow> (Inl e, w)
              | Inr initial_settings \<Rightarrow>
                  (case form_cleaned_data req of
                     None \<Rightarrow> (Inr ChangeForm, w)
                   | Some cleaned_data \<Rightarrow>
                       (if formsets_valid req
                        then (case save_model fw model cleaned_data w of
                                (Inl e, w') \<Rightarrow> (Inl e, w')
                              | (Inr u, w') \<Rightarrow> (Inr ResponseChange, w'))
                        else (Inr ChangeForm, w))))
           else
             (case get_changeform_initial_data model (db w) of
                Inl e \<Rightarrow> (Inl e, w)
              | Inr stored \<Rightarrow>
                  (let initial = dict_set ''last_modified'' (PInt (int last_modified)) stored
                   in case hydrate_instance model initial initial of
                        Inl e \<Rightarrow> (Inl e, w)
                      | Inr form_initial \<Rightarrow> (Inr ChangeForm, w)))))"

text \<open>
  \<open>with transaction.atomic(...)\<close>: the block's database writes are committed when it
  ends normally and rolled back when it raises. The storage is not part of the
  database.
\<close>

definition atomic :: "('s world \<Rightarrow> (exc + 'a) \<times> 's world) \<Rightarrow> 's world \<Rightarrow> (exc + 'a) \<times> 's world" where
  "atomic body w =
     (case body w of
        (Inl e, w') \<Rightarrow> (Inl e, w'\<lparr>db := db w\<rparr>)
      | (Inr r, w') \<Rightarrow> (Inr r, w'))"

definition changeform_view :: "'s framework \<Rightarrow> model_meta \<Rightarrow> request \<Rightarrow> 's world
    \<Rightarrow> (exc + response) \<times> 's world" where
  "changeform_view fw model req w = atomic (changeform_view_inner fw model req) w"

definition change_view :: "'s framework \<Rightarrow> model_meta \<Rightarrow> request \<Rightarrow> 's world
    \<Rightarrow> (exc + response) \<times> 's world" where
  "change_view fw model req w = changeform_view fw model req w"

section \<open>A small installation to run the code on\<close>

text \<open>
  One settings group \<open>shop.site\<close> with a text setting \<open>title\<close>, a file setting
  \<open>logo\<close> and a text setting \<open>motto\<close> whose row has not been created yet, and an
  in-memory storage: a list of \<open>(name, content)\<close> pairs in which
  \<open>save\<close> picks a fresh name when the path is taken.
\<close>

definition site_model :: model_meta where
  "site_model =
     \<lparr>app_label = ''shop'', model_name = ''site'', name_from_class = ''shop.site'',
      model_fields = [(''id'', IntegerField), (''group_name'', CharField),
                      (''last_modified'', IntegerField), (''title'', CharField),
                      (''logo'', FileField), (''motto'', CharField)],
      internal_fields = [''id'', ''group_name'', ''last_modified''],
      other_attributes = [''pk'', ''save'', ''name_from_class'']\<rparr>"

definition mem_delete :: "pyval \<Rightarrow> (string \<times> string) list \<Rightarrow> exc option \<times> (string \<times> string) list" where
  "mem_delete nm st =
     (case nm of
        PStr s \<Rightarrow> (None, filter (\<lambda>kv. fst kv \<noteq> s) st)
      | _ \<Rightarrow> (Some TypeError, st))"

definition mem_save :: "string \<Rightarrow> pyval \<Rightarrow> (string \<times> string) list
    \<Rightarrow> (exc + string) \<times> (string \<times> string) list" where
  "mem_save path v st =
     (case v of
        PFile k nm content \<Rightarrow>
          (let saved = (if map_of st path = None then path else path @ ''_1'')
           in (Inr saved, (saved, content) # st))
      | _ \<Rightarrow> (Inl TypeError, st))"

definition mem_open :: "pyval \<Rightarrow> (string \<times> string) list \<Rightarrow> exc + string" where
  "mem_open nm st =
     (case nm of
        PStr s \<Rightarrow> (case map_of st s of None \<Rightarrow> Inl OSError | Some content \<Rightarrow> Inr content)
      | _ \<Rightarrow> Inl TypeError)"

definition mem_framework :: "(string \<times> string) list framework" where
  "mem_framework =
     \<lparr>get_model = (\<lambda>label. if label = ''shop.site'' then Inr site_model else Inl LookupError),
      touch_last_modified =
        (\<lambda>g gs. Inr (map (\<lambda>row. if fst row = g then (fst row, Suc (snd row)) else row) gs)),
      storage_delete = mem_delete,
      storage_save = mem_save,
      storage_open = mem_open\<rparr>"

text \<open>The same installation on a storage whose \<open>delete\<close> always fails.\<close>

definition failing_delete_framework :: "(string \<times> string) list framework" where
  "failing_delete_framework = mem_framework\<lparr>storage_delete := (\<lambda>nm st. (Some OSError, st))\<rparr>"

definition site_db :: database where
  "site_db =
     \<lparr>db_fault = None,
      setting_groups = [(''shop.site'', 7)],
      app_settings =
        [\<lparr>s_group_name = ''shop.site'', s_name = ''title'', s_value = PStr ''My shop''\<rparr>,
         \<lparr>s_group_name = ''shop.site'', s_name = ''logo'',
          s_value = PStr ''app_settings/shop/site/logo/old.png''\<rparr>]\<rparr>"

definition site_world :: "(string \<times> string) list world" where
  "site_world =
     \<lparr>db = site_db, store = [(''app_settings/shop/site/logo/old.png'', ''OLD'')]\<rparr>"

section \<open>Splitting a setting label\<close>

lemma split_on_no_sep: "sep \<notin> set a \<Longrightarrow> split_on sep a = [a]"
  by (induction a) auto

lemma split_on_append_sep: "sep \<notin> set a \<Longrightarrow> split_on sep (a @ sep # rest) = a # split_on sep rest"
  by (induction a) auto

lemma split_on_not_Nil: "split_on sep xs \<noteq> []"
  by (induction xs) (auto split: list.splits)

lemma split_on_parts: "p \<in> set (split_on sep xs) \<Longrightarrow> sep \<notin> set p"
  by (induction xs arbitrary: p) (auto split: list.splits if_splits)

lemma split_on_single: "split_on sep xs = [a] \<Longrightarrow> xs = a"
  by (induction xs arbitrary: a) (auto split: list.splits if_splits simp: split_on_not_Nil)

lemma split_on_Cons2:
  "split_on sep xs = a # b # rest \<Longrightarrow> \<exists>ys. xs = a @ sep # ys \<and> split_on sep ys = b # rest"
proof (induction xs arbitrary: a)
  case Nil
  then show ?case by simp
next
  case (Cons c cs)
  show ?case
  proof (cases "c = sep")
    case True
    with Cons.prems show ?thesis by auto
  next
    case False
    with Cons.prems obtain p where p: "split_on sep cs = p # b # rest" and a: "a = c # p"
      by (auto split: list.splits)
    from Cons.IH [OF p] obtain ys where "cs = p @ sep # ys" "split_on sep ys = b # rest"
      by blast
    with a show ?thesis by auto
  qed
qed

lemma split_label_join:
  assumes "split_label l = Inr (a, m, s)"
  shows "l = a @ ''.'' @ m @ ''.'' @ s"
    and "CHR ''.'' \<notin> set a" and "CHR ''.'' \<notin> set m" and "CHR ''.'' \<notin> set s"
proof -
  from assms have sp: "split_on CHR ''.'' l = [a, m, s]"
    by (auto simp: split_label_def unpack3_def split: list.splits)
  from split_on_Cons2 [OF sp] obtain ys where ys: "l = a @ CHR ''.'' # ys" "split_on CHR ''.'' ys = [m, s]"
    by blast
  from split_on_Cons2 [OF ys(2)] obtain zs where zs: "ys = m @ CHR ''.'' # zs" "split_on CHR ''.'' zs = [s]"
    by blast
  from split_on_single [OF zs(2)] ys zs show "l = a @ ''.'' @ m @ ''.'' @ s" by simp
  have "\<And>p. p \<in> set [a, m, s] \<Longrightarrow> CHR ''.'' \<notin> set p"
    using split_on_parts [of _ "CHR ''.''" l] sp by simp
  then show "CHR ''.'' \<notin> set a" and "CHR ''.'' \<notin> set m" and "CHR ''.'' \<notin> set s" by simp_all
qed

lemma split_label_three:
  assumes "CHR ''.'' \<notin> set a" "CHR ''.'' \<notin> set m" "CHR ''.'' \<notin> set s"
  shows "split_label (a @ ''.'' @ m @ ''.'' @ s) = Inr (a, m, s)"
  using assms by (simp add: split_label_def unpack3_def split_on_append_sep split_on_no_sep)

lemma append_sep_inj:
  assumes "sep \<notin> set a" "sep \<notin> set a'" "a @ sep # r = a' @ sep # r'"
  shows "a = a' \<and> r = r'"
  using assms
proof (induction a arbitrary: a')
  case Nil
  then show ?case by (cases a') auto
next
  case (Cons c cs)
  then show ?case by (cases a') auto
qed

lemma filter_upt_single:
  "filter P [0 ..< n] = [i] \<longleftrightarrow> (i < n \<and> P i \<and> (\<forall>j < n. P j \<longrightarrow> j = i))"
proof
  assume h: "filter P [0 ..< n] = [i]"
  then have "set (filter P [0 ..< n]) = {i}" by simp
  then show "i < n \<and> P i \<and> (\<forall>j < n. P j \<longrightarrow> j = i)" by auto
next
  assume h: "i < n \<and> P i \<and> (\<forall>j < n. P j \<longrightarrow> j = i)"
  then have s: "set (filter P [0 ..< n]) = {i}" by auto
  have d: "distinct (filter P [0 ..< n])" by simp
  show "filter P [0 ..< n] = [i]"
  proof (cases "filter P [0 ..< n]")
    case Nil
    with s show ?thesis by simp
  next
    case (Cons x ys)
    with s have x: "x = i" by auto
    from Cons d have "x \<notin> set ys" by simp
    moreover from Cons s have "set ys \<subseteq> {i}" by auto
    ultimately have "ys = []" using x by (cases ys) auto
    with Cons x show ?thesis by simp
  qed
qed

section \<open>Reading the relational store\<close>

lemma matching_single:
  "matching d g n = [i] \<longleftrightarrow>
     (i < length (app_settings d)
      \<and> s_group_name (app_settings d ! i) = g \<and> s_name (app_settings d ! i) = n
      \<and> (\<forall>j < length (app_settings d).
            s_group_name (app_settings d ! j) = g \<and> s_name (app_settings d ! j) = n \<longrightarrow> j = i))"
  unfolding matching_def
  using filter_upt_single
    [of "\<lambda>i. s_group_name (app_settings d ! i) = g \<and> s_name (app_settings d ! i) = n"
        "length (app_settings d)" i]
  by simp

lemma objects_get_Inr:
  "objects_get d g n = Inr (pk, r) \<longleftrightarrow>
     (db_fault d = None \<and> matching d g n = [pk] \<and> r = app_settings d ! pk)"
  by (auto simp: objects_get_def split: option.splits list.splits)

lemma objects_get_row:
  assumes "objects_get d g n = Inr (pk, r)"
  shows "pk < length (app_settings d)" and "r = app_settings d ! pk"
    and "s_group_name r = g" and "s_name r = n"
  using assms by (simp_all add: objects_get_Inr matching_single)

section \<open>File-upload settings\<close>

text \<open>
  C2. A setting is a file-upload setting exactly when the model that \<open>get_model\<close>
  resolves from the group name has a field of that name whose class is \<open>FileField\<close>
  or a subclass; when resolving the model or the field raises, it is not one.
\<close>

theorem is_file_setting_by_introspection:
  "(is_file_setting fw group_name setting_name \<longleftrightarrow>
      (\<exists>model field. get_model fw group_name = Inr model
          \<and> get_field model setting_name = Inr field \<and> isinstance_FileField field))
   \<and> ((\<exists>e. get_model fw group_name = Inl e) \<longrightarrow> \<not> is_file_setting fw group_name setting_name)
   \<and> (\<forall>model. get_model fw group_name = Inr model \<and> (\<exists>e. get_field model setting_name = Inl e)
          \<longrightarrow> \<not> is_file_setting fw group_name setting_name)"
  by (auto simp: is_file_setting_def setting_model_field_def split: sum.splits)

theorem is_file_setting_by_introspection_witness:
  "is_file_setting mem_framework ''shop.site'' ''logo''
   \<and> get_model mem_framework ''shop.site'' = Inr site_model
   \<and> get_field site_model ''logo'' = Inr FileField
   \<and> \<not> is_file_setting mem_framework ''shop.site'' ''title''
   \<and> get_model mem_framework ''blog.post'' = Inl LookupError
   \<and> \<not> is_file_setting mem_framework ''blog.post'' ''logo''
   \<and> get_field site_model ''banner'' = Inl FieldDoesNotExist
   \<and> \<not> is_file_setting mem_framework ''shop.site'' ''banner''"
proof -
  have m: "get_model mem_framework ''shop.site'' = Inr site_model"
    by (simp add: mem_framework_def)
  have l: "get_field site_model ''logo'' = Inr FileField"
    by (simp add: get_field_def site_model_def)
  have t: "get_field site_model ''title'' = Inr CharField"
    by (simp add: get_field_def site_model_def)
  have b: "get_field site_model ''banner'' = Inl FieldDoesNotExist"
    by (simp add: get_field_def site_model_def)
  have n: "get_model mem_framework ''blog.post'' = Inl LookupError"
    by (simp add: mem_framework_def)
  from is_file_setting_by_introspection [of mem_framework "''shop.site''" "''logo''"] m l
  have 1: "is_file_setting mem_framework ''shop.site'' ''logo''" by simp
  from is_file_setting_by_introspection [of mem_framework "''shop.site''" "''title''"] m t
  have 2: "\<not> is_file_setting mem_framework ''shop.site'' ''title''" by simp
  from is_file_setting_by_introspection [of mem_framework "''blog.post''" "''logo''"] n
  have 3: "\<not> is_file_setting mem_framework ''blog.post'' ''logo''" by blast
  from is_file_setting_by_introspection [of mem_framework "''shop.site''" "''banner''"] m b
  have 4: "\<not> is_file_setting mem_framework ''shop.site'' ''banner''" by blast
  from 1 2 3 4 m l b n show ?thesis by simp
qed

section \<open>Deleting a stored file\<close>

lemma delete_storage_name_returns: "fst (delete_storage_name fw nm st) = Inr ()"
  by (simp add: delete_storage_name_def split: prod.splits option.splits)

lemma delete_storage_name_store:
  "snd (delete_storage_name fw nm st) = (if truthy nm then snd (storage_delete fw nm st) else st)"
  by (simp add: delete_storage_name_def split: prod.splits option.splits)

lemma delete_storage_name_cong:
  assumes "\<forall>nm st. snd (del nm st) = snd (storage_delete fw nm st)"
  shows "delete_storage_name (fw\<lparr>storage_delete := del\<rparr>) nm st = delete_storage_name fw nm st"
proof -
  have "fst (delete_storage_name (fw\<lparr>storage_delete := del\<rparr>) nm st) = fst (delete_storage_name fw nm st)"
    by (simp add: delete_storage_name_returns)
  moreover have "snd (delete_storage_name (fw\<lparr>storage_delete := del\<rparr>) nm st) = snd (delete_storage_name fw nm st)"
    using assms by (simp add: delete_storage_name_store)
  ultimately show ?thesis by (rule prod_eqI)
qed

lemma is_file_setting_storage_delete [simp]:
  "is_file_setting (fw\<lparr>storage_delete := del\<rparr>) g n = is_file_setting fw g n"
  by (simp add: is_file_setting_def setting_model_field_def)

lemma setitem_storage_delete_cong:
  assumes "\<forall>nm st. snd (del nm st) = snd (storage_delete fw nm st)"
  shows "setitem (fw\<lparr>storage_delete := del\<rparr>) l v w = setitem fw l v w"
  by (simp add: setitem_def delete_storage_name_cong [OF assms] Let_def
      split: sum.splits prod.splits)

text \<open>
  C9. \<open>_delete_storage_name\<close> always returns: it leaves the storage alone when the
  name is empty, and otherwise the storage is as the backend's \<open>delete\<close> left it,
  whether that call raised or not. So the outcome of \<open>__setitem__\<close> does not depend
  on whether a storage delete raised: two backends whose \<open>delete\<close> act alike on the
  storage and differ only in what they raise give the same \<open>__setitem__\<close>.
\<close>

theorem delete_storage_name_never_raises:
  "fst (delete_storage_name fw nm st) = Inr ()
   \<and> (\<not> truthy nm \<longrightarrow> delete_storage_name fw nm st = (Inr (), st))
   \<and> (truthy nm \<longrightarrow> snd (delete_storage_name fw nm st) = snd (storage_delete fw nm st))
   \<and> ((\<forall>nm' st'. snd (del nm' st') = snd (storage_delete fw nm' st'))
        \<longrightarrow> setitem (fw\<lparr>storage_delete := del\<rparr>) l v w = setitem fw l v w)"
  using setitem_storage_delete_cong [of del fw l v w]
  by (simp add: delete_storage_name_returns delete_storage_name_store)
     (simp add: delete_storage_name_def)

theorem delete_storage_name_never_raises_witness:
  "fst (delete_storage_name failing_delete_framework (PStr ''a.png'') [(''a.png'', ''A'')]) = Inr ()
   \<and> storage_delete failing_delete_framework (PStr ''a.png'') [(''a.png'', ''A'')]
       = (Some OSError, [(''a.png'', ''A'')])
   \<and> \<not> truthy (PStr [])
   \<and> delete_storage_name mem_framework (PStr []) [(''a.png'', ''A'')] = (Inr (), [(''a.png'', ''A'')])
   \<and> truthy (PStr ''a.png'')
   \<and> snd (delete_storage_name mem_framework (PStr ''a.png'') [(''a.png'', ''A'')]) = []
   \<and> setitem failing_delete_framework ''shop.site.logo'' PNone site_world
       = setitem (mem_framework\<lparr>storage_delete := (\<lambda>nm st. (None, st))\<rparr>) ''shop.site.logo'' PNone site_world
   \<and> fst (setitem failing_delete_framework ''shop.site.logo'' PNone site_world) = Inr ()"
proof -
  let ?st = "[(''a.png'', ''A'')]"
  let ?ok = "mem_framework\<lparr>storage_delete := (\<lambda>nm st. (None, st))\<rparr>"
  have f: "failing_delete_framework = ?ok\<lparr>storage_delete := (\<lambda>nm st. (Some OSError, st))\<rparr>"
    by (simp add: failing_delete_framework_def)
  have 1: "fst (delete_storage_name failing_delete_framework (PStr ''a.png'') ?st) = Inr ()"
    using delete_storage_name_never_raises [of failing_delete_framework "PStr ''a.png''" ?st] by simp
  have 2: "storage_delete failing_delete_framework (PStr ''a.png'') ?st = (Some OSError, ?st)"
    by (simp add: failing_delete_framework_def)
  have 3: "delete_storage_name mem_framework (PStr []) ?st = (Inr (), ?st)"
    using delete_storage_name_never_raises [of mem_framework "PStr []" ?st] by simp
  have "snd (storage_delete mem_framework (PStr ''a.png'') ?st) = []"
    by (simp add: mem_framework_def mem_delete_def)
  then have 4: "snd (delete_storage_name mem_framework (PStr ''a.png'') ?st) = []"
    using delete_storage_name_never_raises [of mem_framework "PStr ''a.png''" ?st] by simp
  have 5: "setitem failing_delete_framework ''shop.site.logo'' PNone site_world
       = setitem ?ok ''shop.site.logo'' PNone site_world"
    using delete_storage_name_never_raises
      [of ?ok PNone "[]" "\<lambda>nm st. (Some OSError, st)" "''shop.site.logo''" PNone site_world]
    by (simp add: f)
  have 6: "fst (setitem ?ok ''shop.site.logo'' PNone site_world) = Inr ()"
    by (simp add: setitem_def split_label_def unpack3_def objects_get_def matching_def
        site_world_def site_db_def mem_framework_def Let_def upt_rec)
  from 1 2 3 4 5 6 show ?thesis by simp
qed

section \<open>Reading a setting\<close>

lemma getitem_found:
  assumes "split_label l = Inr (a, m, s)"
    and "objects_get (db w) (a @ ''.'' @ m) s = Inr (pk, r)"
  shows "getitem fw w l =
           (if is_file_setting fw (a @ ''.'' @ m) s
            then (open_as_django_file fw (extract_storage_value (s_value r)) (store w), [])
            else (Inr (s_value r), []))"
  using assms by (simp add: getitem_def)

lemma getitem_lookup_raises:
  assumes "split_label l = Inr (a, m, s)"
    and "objects_get (db w) (a @ ''.'' @ m) s = Inl e"
  shows "getitem fw w l =
           (if e = ProgrammingError then (Inr PNone, [getitem_log_message l])
            else if e = ObjectDoesNotExist then (Inl (KeyError l), [])
            else (Inl e, []))"
  using assms by (simp add: getitem_def)


lemma open_as_django_file_returns: "\<exists>x. open_as_django_file fw nm st = Inr x"
  by (simp add: open_as_django_file_def split: sum.splits)

text \<open>
  C6. For a setting whose model field is a \<open>FileField\<close> and whose row is found,
  \<open>__getitem__\<close> takes the storage name out of the row's value (the \<open>name\<close> of a
  file object, or the empty string when that name is empty or \<open>None\<close>; the value
  itself when it is not a file object) and returns the file opened from storage under
  that name, as a plain \<open>File\<close> with that name. It returns \<open>None\<close> when the storage
  name is empty and when opening raises; it raises in neither case.
\<close>

theorem getitem_file_setting:
  assumes "split_label l = Inr (a, m, s)"
    and "objects_get (db w) (a @ ''.'' @ m) s = Inr (pk, r)"
    and "is_file_setting fw (a @ ''.'' @ m) s"
  shows "(\<forall>k nm c. s_value r = PFile k nm c \<longrightarrow>
            extract_storage_value (s_value r) = (if truthy nm then nm else PStr []))
       \<and> (\<not> isinstance_File (s_value r) \<longrightarrow> extract_storage_value (s_value r) = s_value r)
       \<and> (\<forall>f. truthy (extract_storage_value (s_value r))
               \<and> storage_open fw (extract_storage_value (s_value r)) (store w) = Inr f
            \<longrightarrow> getitem fw w l = (Inr (PFile PlainFile (extract_storage_value (s_value r)) f), []))
       \<and> (\<not> truthy (extract_storage_value (s_value r)) \<longrightarrow> getitem fw w l = (Inr PNone, []))
       \<and> (\<forall>e. storage_open fw (extract_storage_value (s_value r)) (store w) = Inl e
            \<longrightarrow> getitem fw w l = (Inr PNone, []))"
  using getitem_found [OF assms(1,2), of fw] assms(3)
  by (auto simp: open_as_django_file_def extract_storage_value_def)

theorem getitem_file_setting_witness:
  "split_label ''shop.site.logo'' = Inr (''shop'', ''site'', ''logo'')
   \<and> objects_get (db site_world) ''shop.site'' ''logo''
        = Inr (1, \<lparr>s_group_name = ''shop.site'', s_name = ''logo'',
                   s_value = PStr ''app_settings/shop/site/logo/old.png''\<rparr>)
   \<and> is_file_setting mem_framework ''shop.site'' ''logo''
   \<and> getitem mem_framework site_world ''shop.site.logo''
        = (Inr (PFile PlainFile (PStr ''app_settings/shop/site/logo/old.png'') ''OLD''), [])
   \<and> storage_open mem_framework (PStr ''app_settings/shop/site/logo/old.png'') [] = Inl OSError
   \<and> getitem mem_framework (site_world\<lparr>store := []\<rparr>) ''shop.site.logo'' = (Inr PNone, [])
   \<and> extract_storage_value (PFile FieldFile PNone []) = PStr []
   \<and> getitem mem_framework
        \<lparr>db = site_db\<lparr>app_settings :=
                [\<lparr>s_group_name = ''shop.site'', s_name = ''logo'',
                  s_value = PFile FieldFile PNone []\<rparr>]\<rparr>,
         store = []\<rparr> ''shop.site.logo'' = (Inr PNone, [])"
proof -
  let ?e = "\<lparr>s_group_name = ''shop.site'', s_name = ''logo'', s_value = PFile FieldFile PNone []\<rparr>"
  let ?w = "\<lparr>db = site_db\<lparr>app_settings := [?e]\<rparr>, store = ([] :: (string \<times> string) list)\<rparr>"
  have ge: "objects_get (db ?w) (''shop'' @ ''.'' @ ''site'') ''logo'' = Inr (0, ?e)"
    by (simp add: objects_get_def matching_def site_db_def)
  let ?r = "\<lparr>s_group_name = ''shop.site'', s_name = ''logo'',
             s_value = PStr ''app_settings/shop/site/logo/old.png''\<rparr>"
  have sp: "split_label ''shop.site.logo'' = Inr (''shop'', ''site'', ''logo'')"
    by (simp add: split_label_def unpack3_def)
  have g: "objects_get (db site_world) (''shop'' @ ''.'' @ ''site'') ''logo'' = Inr (1, ?r)"
    by (simp add: objects_get_def matching_def site_world_def site_db_def upt_rec)
  have g': "objects_get (db (site_world\<lparr>store := []\<rparr>)) (''shop'' @ ''.'' @ ''site'') ''logo'' = Inr (1, ?r)"
    using g by simp
  have f: "is_file_setting mem_framework (''shop'' @ ''.'' @ ''site'') ''logo''"
    by (simp add: is_file_setting_def setting_model_field_def mem_framework_def get_field_def
        site_model_def)
  have x: "extract_storage_value (s_value ?r) = PStr ''app_settings/shop/site/logo/old.png''"
    by (simp add: extract_storage_value_def)
  have o: "storage_open mem_framework (PStr ''app_settings/shop/site/logo/old.png'') (store site_world)
             = Inr ''OLD''"
    by (simp add: mem_framework_def mem_open_def site_world_def)
  have o': "storage_open mem_framework (PStr ''app_settings/shop/site/logo/old.png'') [] = Inl OSError"
    by (simp add: mem_framework_def mem_open_def)
  have 1: "getitem mem_framework site_world ''shop.site.logo''
        = (Inr (PFile PlainFile (PStr ''app_settings/shop/site/logo/old.png'') ''OLD''), [])"
    using getitem_file_setting [OF sp g f] x o by simp
  have 2: "getitem mem_framework (site_world\<lparr>store := []\<rparr>) ''shop.site.logo'' = (Inr PNone, [])"
    using getitem_file_setting [OF sp g' f] x o' by simp
  have xe: "extract_storage_value (PFile FieldFile PNone []) = PStr []"
    using getitem_file_setting [OF sp ge f] by simp
  have 3: "getitem mem_framework ?w ''shop.site.logo'' = (Inr PNone, [])"
    using getitem_file_setting [OF sp ge f] xe by simp
  from sp g f 1 2 3 o' xe show ?thesis by simp
qed

section \<open>The dictionary protocol\<close>




lemma getitem_site_title: "getitem mem_framework site_world ''shop.site.title'' = (Inr (PStr ''My shop''), [])"
  by (simp add: getitem_def split_label_def unpack3_def objects_get_def matching_def
      site_world_def site_db_def upt_rec is_file_setting_def setting_model_field_def
      mem_framework_def get_field_def site_model_def)




text \<open>
  C10. When the row lookup raises \<open>ProgrammingError\<close>, \<open>__getitem__\<close> sends one line
  to \<open>logger.error\<close> and returns \<open>None\<close>. So \<open>get\<close> returns \<open>None\<close> whatever the
  default is, and \<open>label in accessor\<close> is \<open>True\<close>.
\<close>

theorem getitem_without_tables:
  assumes "split_label l = Inr (a, m, s)"
    and "objects_get (db w) (a @ ''.'' @ m) s = Inl ProgrammingError"
  shows "getitem fw w l = (Inr PNone, [getitem_log_message l])
       \<and> get fw w l d = (Inr PNone, [getitem_log_message l])
       \<and> contains fw w l = (Inr True, [getitem_log_message l])"
  using getitem_lookup_raises [OF assms, of fw] by (simp add: get_def contains_def)

theorem getitem_without_tables_witness:
  "split_label ''shop.site.title'' = Inr (''shop'', ''site'', ''title'')
   \<and> objects_get (db \<lparr>db = site_db\<lparr>db_fault := Some ProgrammingError\<rparr>, store = []\<rparr>)
         ''shop.site'' ''title'' = Inl ProgrammingError
   \<and> fst (getitem mem_framework \<lparr>db = site_db\<lparr>db_fault := Some ProgrammingError\<rparr>, store = []\<rparr>
             ''shop.site.title'') = Inr PNone
   \<and> length (snd (getitem mem_framework \<lparr>db = site_db\<lparr>db_fault := Some ProgrammingError\<rparr>, store = []\<rparr>
             ''shop.site.title'')) = 1
   \<and> fst (get mem_framework \<lparr>db = site_db\<lparr>db_fault := Some ProgrammingError\<rparr>, store = []\<rparr>
             ''shop.site.title'' (PStr ''fallback'')) = Inr PNone
   \<and> fst (contains mem_framework \<lparr>db = site_db\<lparr>db_fault := Some ProgrammingError\<rparr>, store = []\<rparr>
             ''shop.site.title'') = Inr True"
proof -
  let ?w = "\<lparr>db = site_db\<lparr>db_fault := Some ProgrammingError\<rparr>, store = ([] :: (string \<times> string) list)\<rparr>"
  have sp: "split_label ''shop.site.title'' = Inr (''shop'', ''site'', ''title'')"
    by (simp add: split_label_def unpack3_def)
  have g: "objects_get (db ?w) (''shop'' @ ''.'' @ ''site'') ''title'' = Inl ProgrammingError"
    by (simp add: objects_get_def)
  from getitem_without_tables [OF sp g, of mem_framework "PStr ''fallback''"] sp g
  show ?thesis by simp
qed

section \<open>Exceptions of the accessor\<close>




lemma setitem_touch_raises:
  assumes "split_label l = Inr (a, m, s)"
    and "objects_get (db w) (a @ ''.'' @ m) s = Inr (pk, r)"
    and "touch_last_modified fw (s_group_name r) (setting_groups (db w)) = Inl e"
  shows "setitem fw l v w = (Inl e, w)"
  using assms by (simp add: setitem_def)







section \<open>The admin's pages\<close>

text \<open>
  C7. The admin of a settings group registers two URL names, the change page and the
  changelist, both on the empty route and both dispatching to the change view, which
  is the changeform view; no pattern dispatches to a list or an add view. And
  \<open>has_add_permission\<close> is \<open>False\<close> for every request.
\<close>

theorem singleton_admin_page:
  "(\<forall>p \<in> set (get_urls model). dispatches_to (url_callback p) = ChangeView \<and> route p = [])
   \<and> map url_name (get_urls model)
        = [app_label model @ ''_'' @ model_name model @ ''_change'',
           app_label model @ ''_'' @ model_name model @ ''_changelist'']
   \<and> change_view fw model req w = changeform_view fw model req w
   \<and> (\<forall>req'. \<not> has_add_permission model req')"
  by (simp add: get_urls_def wrap_def change_view_def has_add_permission_def)

theorem singleton_admin_page_witness:
  "get_urls site_model \<noteq> []
   \<and> map (\<lambda>p. dispatches_to (url_callback p)) (get_urls site_model) = [ChangeView, ChangeView]
   \<and> map url_name (get_urls site_model) = [''shop_site_change'', ''shop_site_changelist'']
   \<and> \<not> has_add_permission site_model
         \<lparr>http_method = ''POST'', has_change_permission = True, has_view_permission = True,
          form_cleaned_data = None, formsets_valid = True\<rparr>"
proof -
  have u: "get_urls site_model =
      [\<lparr>route = [], url_callback = Wrapped ChangeView, url_name = ''shop_site_change''\<rparr>,
       \<lparr>route = [], url_callback = Wrapped ChangeView, url_name = ''shop_site_changelist''\<rparr>]"
    by (simp add: get_urls_def wrap_def site_model_def)
  from singleton_admin_page [of site_model mem_framework
      "\<lparr>http_method = ''POST'', has_change_permission = True, has_view_permission = True,
        form_cleaned_data = None, formsets_valid = True\<rparr>" site_world]
  show ?thesis by (simp add: u)
qed

section \<open>The save transaction\<close>

lemma atomic_result: "fst (atomic body w) = fst (body w)"
  by (simp add: atomic_def split: prod.splits sum.splits)

lemma atomic_store: "store (snd (atomic body w)) = store (snd (body w))"
  by (simp add: atomic_def split: prod.splits sum.splits)

lemma atomic_rollback: "fst (atomic body w) = Inl e \<Longrightarrow> db (snd (atomic body w)) = db w"
  by (auto simp: atomic_def split: prod.splits sum.splits)

lemma atomic_raises_world:
  "fst (atomic body w) = Inl e \<Longrightarrow> snd (atomic body w) = (snd (body w))\<lparr>db := db w\<rparr>"
  by (auto simp: atomic_def split: prod.splits sum.splits)

lemma atomic_commit: "fst (body w) = Inr r \<Longrightarrow> atomic body w = body w"
  by (auto simp: atomic_def split: prod.splits sum.splits)

lemma changeform_view_inner_post:
  assumes "groups_get (db w) (name_from_class model) = Inr sg"
    and "http_method req = ''POST''" and "has_change_permission req"
    and "form_cleaned_data req = Some cleaned_data" and "formsets_valid req"
  shows "changeform_view_inner fw model req w =
           (case save_model fw model cleaned_data w of
              (Inl e, w') \<Rightarrow> (Inl e, w')
            | (Inr u, w') \<Rightarrow> (Inr ResponseChange, w'))"
proof -
  from assms(1) have "db_fault (db w) = None"
    by (auto simp: groups_get_def split: option.splits)
  with assms show ?thesis
    by (simp add: changeform_view_inner_def get_changeform_initial_data_def)
qed

text \<open>
  C8, as the code has it. \<open>changeform_view\<close> runs the whole of \<open>_changeform_view\<close>
  in one atomic block: its result is the block's, its database is the block's when the
  block returns and the database it started from when the block raises. The storage
  is outside the transaction: storage deletes and saves take effect at once and no
  rollback undoes them, so after a request that raised the world is the one the block
  left with only the database put back. For a permitted POST with valid data the block
  is \<open>save_model\<close>, so every settings write and every storage delete and save of the
  request happens inside that block; when \<open>save_model\<close> raises, the database is as
  before the request and the storage is as \<open>save_model\<close> left it.
\<close>

theorem changeform_view_in_one_transaction:
  "fst (changeform_view fw model req w) = fst (changeform_view_inner fw model req w)
   \<and> store (snd (changeform_view fw model req w))
        = store (snd (changeform_view_inner fw model req w))
   \<and> (\<forall>e. fst (changeform_view fw model req w) = Inl e \<longrightarrow>
          db (snd (changeform_view fw model req w)) = db w)
   \<and> (\<forall>e. fst (changeform_view fw model req w) = Inl e \<longrightarrow>
          snd (changeform_view fw model req w)
            = (snd (changeform_view_inner fw model req w))\<lparr>db := db w\<rparr>)
   \<and> (\<forall>r. fst (changeform_view fw model req w) = Inr r \<longrightarrow>
          changeform_view fw model req w = changeform_view_inner fw model req w)
   \<and> (\<forall>sg cleaned_data.
          groups_get (db w) (name_from_class model) = Inr sg
          \<and> http_method req = ''POST'' \<and> has_change_permission req
          \<and> form_cleaned_data req = Some cleaned_data \<and> formsets_valid req \<longrightarrow>
          changeform_view fw model req w =
            (case save_model fw model cleaned_data w of
               (Inl e, w') \<Rightarrow> (Inl e, w'\<lparr>db := db w\<rparr>)
             | (Inr u, w') \<Rightarrow> (Inr ResponseChange, w')))"
proof (intro conjI allI impI)
  show "fst (changeform_view fw model req w) = fst (changeform_view_inner fw model req w)"
    by (simp add: changeform_view_def atomic_result)
  show "store (snd (changeform_view fw model req w))
        = store (snd (changeform_view_inner fw model req w))"
    by (simp add: changeform_view_def atomic_store)
next
  fix e assume "fst (changeform_view fw model req w) = Inl e"
  then show "db (snd (changeform_view fw model req w)) = db w"
    unfolding changeform_view_def by (rule atomic_rollback)
next
  fix e assume "fst (changeform_view fw model req w) = Inl e"
  then show "snd (changeform_view fw model req w)
            = (snd (changeform_view_inner fw model req w))\<lparr>db := db w\<rparr>"
    unfolding changeform_view_def by (rule atomic_raises_world)
next
  fix r assume "fst (changeform_view fw model req w) = Inr r"
  then have "fst (changeform_view_inner fw model req w) = Inr r"
    by (simp add: changeform_view_def atomic_result)
  then show "changeform_view fw model req w = changeform_view_inner fw model req w"
    unfolding changeform_view_def by (rule atomic_commit)
next
  fix sg cleaned_data
  assume "groups_get (db w) (name_from_class model) = Inr sg
          \<and> http_method req = ''POST'' \<and> has_change_permission req
          \<and> form_cleaned_data req = Some cleaned_data \<and> formsets_valid req"
  then have "changeform_view_inner fw model req w =
           (case save_model fw model cleaned_data w of
              (Inl e, w') \<Rightarrow> (Inl e, w')
            | (Inr u, w') \<Rightarrow> (Inr ResponseChange, w'))"
    using changeform_view_inner_post by blast
  then show "changeform_view fw model req w =
            (case save_model fw model cleaned_data w of
               (Inl e, w') \<Rightarrow> (Inl e, w'\<lparr>db := db w\<rparr>)
             | (Inr u, w') \<Rightarrow> (Inr ResponseChange, w'))"
    by (simp add: changeform_view_def atomic_def split: prod.splits sum.splits)
qed

lemma groups_get_site: "groups_get (db site_world) (name_from_class site_model) = Inr (0, ''shop.site'', 7)"
  by (simp add: groups_get_def site_world_def site_db_def site_model_def)

lemma setitem_site_clear_logo:
  "setitem mem_framework ''shop.site.logo'' PNone site_world =
     (Inr (),
      \<lparr>db = site_db\<lparr>setting_groups := [(''shop.site'', 8)],
             app_settings :=
               [\<lparr>s_group_name = ''shop.site'', s_name = ''title'', s_value = PStr ''My shop''\<rparr>,
                \<lparr>s_group_name = ''shop.site'', s_name = ''logo'', s_value = PNone\<rparr>]\<rparr>,
       store = []\<rparr>)"
  by (simp add: setitem_def split_label_def unpack3_def objects_get_def matching_def
      site_world_def site_db_def upt_rec mem_framework_def Let_def extract_storage_value_def
      is_file_setting_def setting_model_field_def get_field_def site_model_def
      delete_storage_name_def mem_delete_def row_save_def)

lemma save_model_site_fails:
  "save_model mem_framework site_model [(''logo'', PBool False), (''banner'', PStr ''x'')] site_world =
     (Inl FieldDoesNotExist,
      \<lparr>db = site_db\<lparr>setting_groups := [(''shop.site'', 8)],
             app_settings :=
               [\<lparr>s_group_name = ''shop.site'', s_name = ''title'', s_value = PStr ''My shop''\<rparr>,
                \<lparr>s_group_name = ''shop.site'', s_name = ''logo'', s_value = PNone\<rparr>]\<rparr>,
       store = []\<rparr>)"
proof -
  have i: "internal_fields site_model = [''id'', ''group_name'', ''last_modified'']"
    and n: "name_from_class site_model = ''shop.site''"
    and l: "get_field site_model ''logo'' = Inr FileField"
    and b: "get_field site_model ''banner'' = Inl FieldDoesNotExist"
    by (simp_all add: site_model_def get_field_def)
  show ?thesis
    using setitem_site_clear_logo by (simp add: i n l b)
qed

theorem changeform_view_in_one_transaction_witness:
  "save_model mem_framework site_model [(''logo'', PBool False), (''banner'', PStr ''x'')] site_world =
     (Inl FieldDoesNotExist,
      \<lparr>db = site_db\<lparr>setting_groups := [(''shop.site'', 8)],
             app_settings :=
               [\<lparr>s_group_name = ''shop.site'', s_name = ''title'', s_value = PStr ''My shop''\<rparr>,
                \<lparr>s_group_name = ''shop.site'', s_name = ''logo'', s_value = PNone\<rparr>]\<rparr>,
       store = []\<rparr>)
   \<and> changeform_view mem_framework site_model
        \<lparr>http_method = ''POST'', has_change_permission = True, has_view_permission = True,
         form_cleaned_data = Some [(''logo'', PBool False), (''banner'', PStr ''x'')],
         formsets_valid = True\<rparr> site_world
      = (Inl FieldDoesNotExist, \<lparr>db = site_db, store = []\<rparr>)"
proof -
  let ?req = "\<lparr>http_method = ''POST'', has_change_permission = True, has_view_permission = True,
         form_cleaned_data = Some [(''logo'', PBool False), (''banner'', PStr ''x'')],
         formsets_valid = True\<rparr>"
  have d: "db site_world = site_db" by (simp add: site_world_def)
  from changeform_view_in_one_transaction [of mem_framework site_model ?req site_world]
  have "changeform_view mem_framework site_model ?req site_world =
          (case save_model mem_framework site_model
                  [(''logo'', PBool False), (''banner'', PStr ''x'')] site_world of
             (Inl e, w') \<Rightarrow> (Inl e, w'\<lparr>db := db site_world\<rparr>)
           | (Inr u, w') \<Rightarrow> (Inr ResponseChange, w'))"
    using groups_get_site by (simp del: save_model.simps)
  then show ?thesis
    by (simp add: save_model_site_fails d del: save_model.simps)
qed

lemma save_model_site_row_missing:
  "save_model mem_framework site_model [(''logo'', PBool False), (''motto'', PStr ''Open daily'')]
       site_world =
     (Inl ObjectDoesNotExist,
      \<lparr>db = site_db\<lparr>setting_groups := [(''shop.site'', 8)],
             app_settings :=
               [\<lparr>s_group_name = ''shop.site'', s_name = ''title'', s_value = PStr ''My shop''\<rparr>,
                \<lparr>s_group_name = ''shop.site'', s_name = ''logo'', s_value = PNone\<rparr>]\<rparr>,
       store = []\<rparr>)"
proof -
  let ?w1 = "\<lparr>db = site_db\<lparr>setting_groups := [(''shop.site'', 8)],
             app_settings :=
               [\<lparr>s_group_name = ''shop.site'', s_name = ''title'', s_value = PStr ''My shop''\<rparr>,
                \<lparr>s_group_name = ''shop.site'', s_name = ''logo'', s_value = PNone\<rparr>]\<rparr>,
       store = ([] :: (string \<times> string) list)\<rparr>"
  have i: "internal_fields site_model = [''id'', ''group_name'', ''last_modified'']"
    and n: "name_from_class site_model = ''shop.site''"
    and l: "get_field site_model ''logo'' = Inr FileField"
    and m: "get_field site_model ''motto'' = Inr CharField"
    by (simp_all add: site_model_def get_field_def)
  have s2: "setitem mem_framework ''shop.site.motto'' (PStr ''Open daily'') ?w1
              = (Inl ObjectDoesNotExist, ?w1)"
    by (simp add: setitem_def split_label_def unpack3_def objects_get_def matching_def
        site_db_def upt_rec Let_def)
  show ?thesis
    using setitem_site_clear_logo s2 by (simp add: i n l m)
qed

text \<open>
  The claim as worded has the stored files coupled to the transaction. A permitted POST
  clears \<open>logo\<close> and then writes \<open>motto\<close>, whose row does not exist: the request
  raises, the database is rolled back to the row that names the old logo file, and the
  file stays deleted.
\<close>

theorem storage_outlives_rollback_counterexample:
  "fst (changeform_view mem_framework site_model
        \<lparr>http_method = ''POST'', has_change_permission = True, has_view_permission = True,
         form_cleaned_data = Some [(''logo'', PBool False), (''motto'', PStr ''Open daily'')],
         formsets_valid = True\<rparr> site_world) = Inl ObjectDoesNotExist
   \<and> db (snd (changeform_view mem_framework site_model
        \<lparr>http_method = ''POST'', has_change_permission = True, has_view_permission = True,
         form_cleaned_data = Some [(''logo'', PBool False), (''motto'', PStr ''Open daily'')],
         formsets_valid = True\<rparr> site_world)) = db site_world
   \<and> s_value (app_settings (db site_world) ! 1) = PStr ''app_settings/shop/site/logo/old.png''
   \<and> store site_world = [(''app_settings/shop/site/logo/old.png'', ''OLD'')]
   \<and> store (snd (changeform_view mem_framework site_model
        \<lparr>http_method = ''POST'', has_change_permission = True, has_view_permission = True,
         form_cleaned_data = Some [(''logo'', PBool False), (''motto'', PStr ''Open daily'')],
         formsets_valid = True\<rparr> site_world)) = []"
proof -
  let ?req = "\<lparr>http_method = ''POST'', has_change_permission = True, has_view_permission = True,
         form_cleaned_data = Some [(''logo'', PBool False), (''motto'', PStr ''Open daily'')],
         formsets_valid = True\<rparr>"
  have "changeform_view_inner mem_framework site_model ?req site_world =
          (case save_model mem_framework site_model
                  [(''logo'', PBool False), (''motto'', PStr ''Open daily'')] site_world of
             (Inl e, w') \<Rightarrow> (Inl e, w')
           | (Inr u, w') \<Rightarrow> (Inr ResponseChange, w'))"
    by (rule changeform_view_inner_post [OF groups_get_site]) simp_all
  then have "changeform_view mem_framework site_model ?req site_world
               = (Inl ObjectDoesNotExist, \<lparr>db = db site_world, store = []\<rparr>)"
    by (simp add: changeform_view_def atomic_def save_model_site_row_missing
        del: save_model.simps)
  then show ?thesis
    by (simp add: site_world_def site_db_def)
qed

section \<open>Writing a setting\<close>

lemma setitem_new_upload:
  assumes "split_label l = Inr (a, m, s)"
    and "objects_get (db w) (a @ ''.'' @ m) s = Inr (pk, r)"
    and "touch_last_modified fw (s_group_name r) (setting_groups (db w)) = Inr gs"
    and "is_new_upload v"
    and "storage_path_for a m s (file_name v) = Inr path"
    and "storage_save fw path v
           (snd (delete_storage_name fw (extract_storage_value (s_value r)) (store w)))
         = (Inr saved, st2)"
  shows "setitem fw l v w =
           (Inr (),
            \<lparr>db = row_save pk (r\<lparr>s_value := PStr saved\<rparr>) ((db w)\<lparr>setting_groups := gs\<rparr>),
             store = st2\<rparr>)"
  using assms by (simp add: setitem_def Let_def)

lemma setitem_plain_value:
  assumes "split_label l = Inr (a, m, s)"
    and "objects_get (db w) (a @ ''.'' @ m) s = Inr (pk, r)"
    and "touch_last_modified fw (s_group_name r) (setting_groups (db w)) = Inr gs"
    and "\<not> is_new_upload v"
  shows "setitem fw l v w =
           (Inr (),
            \<lparr>db = row_save pk (r\<lparr>s_value := v\<rparr>) ((db w)\<lparr>setting_groups := gs\<rparr>),
             store = (if \<not> truthy v \<and> is_file_setting fw (a @ ''.'' @ m) s
                      then snd (delete_storage_name fw (extract_storage_value (s_value r)) (store w))
                      else store w)\<rparr>)"
  using assms by (simp add: setitem_def Let_def)

text \<open>
  An upload whose name is not a string (an unnamed \<open>File\<close> has \<open>name = None\<close>) gets as
  far as \<open>os.path.basename\<close>: the group is touched and the old stored name deleted, then
  \<open>TypeError\<close> leaves \<open>__setitem__\<close> and the row keeps its old value.
\<close>

lemma setitem_unnamed_upload:
  assumes "split_label l = Inr (a, m, s)"
    and "objects_get (db w) (a @ ''.'' @ m) s = Inr (pk, r)"
    and "touch_last_modified fw (s_group_name r) (setting_groups (db w)) = Inr gs"
  shows "setitem fw l (PFile PlainFile PNone content) w =
           (Inl TypeError,
            \<lparr>db = (db w)\<lparr>setting_groups := gs\<rparr>,
             store = snd (delete_storage_name fw (extract_storage_value (s_value r)) (store w))\<rparr>)"
  using assms by (simp add: setitem_def Let_def storage_path_for_def)

lemma setitem_success_rows:
  assumes "split_label l = Inr (a, m, s)"
    and "fst (setitem fw l v w) = Inr ()"
  shows "\<exists>pk r v'. objects_get (db w) (a @ ''.'' @ m) s = Inr (pk, r)
           \<and> app_settings (db (snd (setitem fw l v w)))
               = (app_settings (db w))[pk := r\<lparr>s_value := v'\<rparr>]"
proof (cases "objects_get (db w) (a @ ''.'' @ m) s")
  case (Inl e)
  with assms show ?thesis by (simp add: setitem_def)
next
  case (Inr pr)
  obtain pk r where pr: "pr = (pk, r)" by (cases pr)
  show ?thesis
  proof (cases "touch_last_modified fw (s_group_name r) (setting_groups (db w))")
    case (Inl e)
    with assms Inr pr show ?thesis by (simp add: setitem_def)
  next
    case touched: (Inr gs)
    show ?thesis
    proof (cases "is_new_upload v")
      case False
      from setitem_plain_value [OF assms(1) Inr [unfolded pr] touched False] Inr pr
      show ?thesis by (auto simp: row_save_def)
    next
      case True
      with assms Inr pr touched show ?thesis
        by (auto simp: setitem_def Let_def row_save_def split: sum.splits prod.splits)
    qed
  qed
qed

section \<open>The store is keyed by group and name\<close>

lemma matching_unique:
  "(\<exists>i. matching d g n = [i]) \<longleftrightarrow>
     (\<exists>!i. i < length (app_settings d)
           \<and> s_group_name (app_settings d ! i) = g \<and> s_name (app_settings d ! i) = n)"
  unfolding matching_single by auto

lemma objects_get_healthy:
  assumes "db_fault d = None"
  shows "(\<exists>pr. objects_get d g n = Inr pr) \<longleftrightarrow> (\<exists>i. matching d g n = [i])"
  using assms by (auto simp: objects_get_def split: list.splits)

lemma objects_get_healthy_Inl:
  assumes "db_fault d = None" and "objects_get d g n = Inl e"
  shows "e = ObjectDoesNotExist \<or> e = MultipleObjectsReturned"
  using assms by (auto simp: objects_get_def split: list.splits)

lemma getitem_returns_iff_row:
  assumes "split_label l = Inr (a, m, s)" and "db_fault (db w) = None"
  shows "(\<exists>x. fst (getitem fw w l) = Inr x) \<longleftrightarrow> (\<exists>pr. objects_get (db w) (a @ ''.'' @ m) s = Inr pr)"
proof (cases "objects_get (db w) (a @ ''.'' @ m) s")
  case (Inl e)
  with objects_get_healthy_Inl [OF assms(2) Inl] getitem_lookup_raises [OF assms(1) Inl, of fw]
  show ?thesis by auto
next
  case (Inr pr)
  obtain pk r where "pr = (pk, r)" by (cases pr)
  with getitem_found [OF assms(1), of w pk r fw] Inr open_as_django_file_returns [of fw]
  show ?thesis
    by (cases "is_file_setting fw (a @ ''.'' @ m) s") auto
qed

lemma same_key_same_label:
  assumes "split_label l1 = Inr (a1, m1, s1)" and "split_label l2 = Inr (a2, m2, s2)"
    and "a1 @ ''.'' @ m1 = a2 @ ''.'' @ m2" and "s1 = s2"
  shows "l1 = l2"
proof -
  from split_label_join(1) [OF assms(1)] have "l1 = (a1 @ ''.'' @ m1) @ ''.'' @ s1" by simp
  moreover from split_label_join(1) [OF assms(2)] have "l2 = (a2 @ ''.'' @ m2) @ ''.'' @ s2" by simp
  ultimately show ?thesis using assms(3,4) by simp
qed

text \<open>
  C3. A label \<open>app.model.setting\<close> splits into its three parts, and both
  \<open>__getitem__\<close> and \<open>__setitem__\<close> look up the row whose group name is
  \<open>app.model\<close> and whose name is \<open>setting\<close>. On a usable database \<open>__getitem__\<close>
  returns exactly when there is one and only one such row, and for a setting that is
  not a file it returns that row's value; \<open>__setitem__\<close> succeeds only when there is
  one and only one such row, and then changes no other row and leaves that row's group
  name and name as they were. Two labels that split to the same group name and setting
  name are the same label, so they read and write the same row.
\<close>

theorem settings_keyed_by_group_and_name:
  "(CHR ''.'' \<notin> set app \<and> CHR ''.'' \<notin> set model \<and> CHR ''.'' \<notin> set setting \<longrightarrow>
      split_label (app @ ''.'' @ model @ ''.'' @ setting) = Inr (app, model, setting))
   \<and> (\<forall>a m s. split_label l = Inr (a, m, s) \<and> db_fault (db w) = None \<longrightarrow>
        ((\<exists>x. fst (getitem fw w l) = Inr x) \<longleftrightarrow>
           (\<exists>!i. i < length (app_settings (db w))
                 \<and> s_group_name (app_settings (db w) ! i) = a @ ''.'' @ m
                 \<and> s_name (app_settings (db w) ! i) = s))
        \<and> (\<forall>i. matching (db w) (a @ ''.'' @ m) s = [i] \<and> \<not> is_file_setting fw (a @ ''.'' @ m) s \<longrightarrow>
              fst (getitem fw w l) = Inr (s_value (app_settings (db w) ! i)))
        \<and> (fst (setitem fw l v w) = Inr () \<longrightarrow>
              (\<exists>!i. i < length (app_settings (db w))
                 \<and> s_group_name (app_settings (db w) ! i) = a @ ''.'' @ m
                 \<and> s_name (app_settings (db w) ! i) = s)
              \<and> (\<forall>i. matching (db w) (a @ ''.'' @ m) s = [i] \<longrightarrow>
                    length (app_settings (db (snd (setitem fw l v w)))) = length (app_settings (db w))
                    \<and> s_group_name (app_settings (db (snd (setitem fw l v w))) ! i) = a @ ''.'' @ m
                    \<and> s_name (app_settings (db (snd (setitem fw l v w))) ! i) = s
                    \<and> (\<forall>j. j \<noteq> i \<longrightarrow>
                          app_settings (db (snd (setitem fw l v w))) ! j = app_settings (db w) ! j))))
   \<and> (\<forall>a1 m1 s1 a2 m2 s2.
          split_label l1 = Inr (a1, m1, s1) \<and> split_label l2 = Inr (a2, m2, s2)
          \<and> a1 @ ''.'' @ m1 = a2 @ ''.'' @ m2 \<and> s1 = s2 \<longrightarrow>
          l1 = l2 \<and> getitem fw w l1 = getitem fw w l2 \<and> setitem fw l1 v w = setitem fw l2 v w)"
proof (intro conjI allI impI)
  assume "CHR ''.'' \<notin> set app \<and> CHR ''.'' \<notin> set model \<and> CHR ''.'' \<notin> set setting"
  then show "split_label (app @ ''.'' @ model @ ''.'' @ setting) = Inr (app, model, setting)"
    using split_label_three [of app model setting] by simp
next
  fix a m s
  assume h: "split_label l = Inr (a, m, s) \<and> db_fault (db w) = None"
  then show "(\<exists>x. fst (getitem fw w l) = Inr x) \<longleftrightarrow>
           (\<exists>!i. i < length (app_settings (db w))
                 \<and> s_group_name (app_settings (db w) ! i) = a @ ''.'' @ m
                 \<and> s_name (app_settings (db w) ! i) = s)"
    using getitem_returns_iff_row [of l a m s w fw]
      objects_get_healthy [of "db w" "a @ ''.'' @ m" s]
      matching_unique [of "db w" "a @ ''.'' @ m" s]
    by simp
next
  fix a m s i
  assume h: "split_label l = Inr (a, m, s) \<and> db_fault (db w) = None"
    and i: "matching (db w) (a @ ''.'' @ m) s = [i] \<and> \<not> is_file_setting fw (a @ ''.'' @ m) s"
  from h i have "objects_get (db w) (a @ ''.'' @ m) s = Inr (i, app_settings (db w) ! i)"
    by (simp add: objects_get_Inr)
  from getitem_found [OF _ this, of l fw] h i
  show "fst (getitem fw w l) = Inr (s_value (app_settings (db w) ! i))" by simp
next
  fix a m s
  assume h: "split_label l = Inr (a, m, s) \<and> db_fault (db w) = None"
    and ok: "fst (setitem fw l v w) = Inr ()"
  from setitem_success_rows [OF _ ok, of a m s] h
  have "\<exists>pr. objects_get (db w) (a @ ''.'' @ m) s = Inr pr" by auto
  with h show "\<exists>!i. i < length (app_settings (db w))
                 \<and> s_group_name (app_settings (db w) ! i) = a @ ''.'' @ m
                 \<and> s_name (app_settings (db w) ! i) = s"
    using objects_get_healthy [of "db w" "a @ ''.'' @ m" s]
      matching_unique [of "db w" "a @ ''.'' @ m" s]
    by simp
next
  fix a m s i
  assume h: "split_label l = Inr (a, m, s) \<and> db_fault (db w) = None"
    and ok: "fst (setitem fw l v w) = Inr ()"
    and i: "matching (db w) (a @ ''.'' @ m) s = [i]"
  from setitem_success_rows [OF _ ok, of a m s] h
  obtain pk r v' where g: "objects_get (db w) (a @ ''.'' @ m) s = Inr (pk, r)"
    and rows: "app_settings (db (snd (setitem fw l v w)))
               = (app_settings (db w))[pk := r\<lparr>s_value := v'\<rparr>]"
    by auto
  from g i have pk: "pk = i" by (simp add: objects_get_Inr)
  from objects_get_row [OF g] pk
  have r: "i < length (app_settings (db w))" "s_group_name r = a @ ''.'' @ m" "s_name r = s"
    by simp_all
  show "length (app_settings (db (snd (setitem fw l v w)))) = length (app_settings (db w))"
    by (simp add: rows)
  show "s_group_name (app_settings (db (snd (setitem fw l v w))) ! i) = a @ ''.'' @ m"
    using r by (simp add: rows pk)
  show "s_name (app_settings (db (snd (setitem fw l v w))) ! i) = s"
    using r by (simp add: rows pk)
  show "\<And>j. j \<noteq> i \<Longrightarrow> app_settings (db (snd (setitem fw l v w))) ! j = app_settings (db w) ! j"
    by (simp add: rows pk)
next
  fix a1 m1 s1 a2 m2 s2
  assume h: "split_label l1 = Inr (a1, m1, s1) \<and> split_label l2 = Inr (a2, m2, s2)
          \<and> a1 @ ''.'' @ m1 = a2 @ ''.'' @ m2 \<and> s1 = s2"
  then have e: "l1 = l2" using same_key_same_label [of l1 a1 m1 s1 l2 a2 m2 s2] by blast
  then show "l1 = l2" "getitem fw w l1 = getitem fw w l2" "setitem fw l1 v w = setitem fw l2 v w"
    by simp_all
qed

lemma matching_site_title: "matching (db site_world) (''shop'' @ ''.'' @ ''site'') ''title'' = [0]"
  by (simp add: matching_def site_world_def site_db_def upt_rec)

lemma split_label_site_title: "split_label ''shop.site.title'' = Inr (''shop'', ''site'', ''title'')"
  by (simp add: split_label_def unpack3_def)

lemma setitem_site_title:
  "setitem mem_framework ''shop.site.title'' (PStr ''New name'') site_world =
     (Inr (),
      \<lparr>db = site_db\<lparr>setting_groups := [(''shop.site'', 8)],
             app_settings :=
               [\<lparr>s_group_name = ''shop.site'', s_name = ''title'', s_value = PStr ''New name''\<rparr>,
                \<lparr>s_group_name = ''shop.site'', s_name = ''logo'',
                 s_value = PStr ''app_settings/shop/site/logo/old.png''\<rparr>]\<rparr>,
       store = [(''app_settings/shop/site/logo/old.png'', ''OLD'')]\<rparr>)"
  by (simp add: setitem_def split_label_def unpack3_def objects_get_def matching_def
      site_world_def site_db_def upt_rec mem_framework_def Let_def extract_storage_value_def
      row_save_def)

theorem settings_keyed_by_group_and_name_witness:
  "split_label ''shop.site.title'' = Inr (''shop'', ''site'', ''title'')
   \<and> db_fault (db site_world) = None
   \<and> matching (db site_world) ''shop.site'' ''title'' = [0]
   \<and> \<not> is_file_setting mem_framework ''shop.site'' ''title''
   \<and> fst (getitem mem_framework site_world ''shop.site.title'') = Inr (PStr ''My shop'')
   \<and> (\<exists>!i. i < length (app_settings (db site_world))
         \<and> s_group_name (app_settings (db site_world) ! i) = ''shop.site''
         \<and> s_name (app_settings (db site_world) ! i) = ''title'')
   \<and> fst (setitem mem_framework ''shop.site.title'' (PStr ''New name'') site_world) = Inr ()
   \<and> app_settings (db (snd (setitem mem_framework ''shop.site.title'' (PStr ''New name'') site_world))) ! 1
        = app_settings (db site_world) ! 1"
proof -
  have f: "db_fault (db site_world) = None" by (simp add: site_world_def site_db_def)
  have nf: "\<not> is_file_setting mem_framework (''shop'' @ ''.'' @ ''site'') ''title''"
    by (simp add: is_file_setting_def setting_model_field_def mem_framework_def get_field_def
        site_model_def)
  have ok: "fst (setitem mem_framework ''shop.site.title'' (PStr ''New name'') site_world) = Inr ()"
    by (simp add: setitem_site_title)
  have d: "''shop'' \<noteq> ''title''" "CHR ''.'' \<notin> set ''shop''" "CHR ''.'' \<notin> set ''site''"
    "CHR ''.'' \<notin> set ''title''" by simp_all
  from settings_keyed_by_group_and_name
    [of "''shop''" "''site''" "''title''" "''shop.site.title''" site_world mem_framework
        "PStr ''New name''" "''shop.site.title''" "''shop.site.title''"]
    split_label_site_title f matching_site_title nf ok
  show ?thesis by (simp add: getitem_site_title)
qed

section \<open>The life of a stored file\<close>

lemma save_model_file_field:
  assumes "field_name \<notin> set (internal_fields obj)"
    and "get_field obj field_name = Inr field" and "isinstance_FileField field"
  shows "save_model fw obj ((field_name, PBool False) # rest) w =
           (case setitem fw (name_from_class obj @ ''.'' @ field_name) PNone w of
              (Inl e, w') \<Rightarrow> (Inl e, w')
            | (Inr u, w') \<Rightarrow> save_model fw obj rest w')"
    and "\<not> truthy v \<Longrightarrow> v \<noteq> PBool False \<Longrightarrow>
           save_model fw obj ((field_name, v) # rest) w = save_model fw obj rest w"
  using assms by simp_all

lemma basename_no_slash:
  assumes "CHR ''/'' \<notin> set b"
  shows "basename b = b"
proof -
  from assms have tw: "takeWhile (\<lambda>c. c \<noteq> CHR ''/'') (rev b) = rev b"
    by (auto simp: takeWhile_eq_all_conv)
  show ?thesis unfolding basename_def tw by simp
qed

lemma basename_after_slash:
  assumes "CHR ''/'' \<notin> set b"
  shows "basename (d @ ''/'' @ b) = b"
proof -
  from assms have "\<And>c. c \<in> set (rev b) \<Longrightarrow> c \<noteq> CHR ''/''" by auto
  then have "takeWhile (\<lambda>c. c \<noteq> CHR ''/'') (rev b @ CHR ''/'' # rev d)
               = rev b @ takeWhile (\<lambda>c. c \<noteq> CHR ''/'') (CHR ''/'' # rev d)"
    by (rule takeWhile_append2)
  then show ?thesis by (simp add: basename_def)
qed

text \<open>
  C1, as the code has it. For every label whose row is found and whose group is touched:
  when \<open>__setitem__\<close> receives a newly uploaded file (a \<open>File\<close> that is not a
  \<open>FieldFile\<close>) whose name is a string, it deletes the stored name the row held (if
  that is not empty), saves the file under
  \<open>app_settings/<app>/<model>/<setting>/<basename>\<close>, with \<open>upload\<close> for an empty
  basename, and, when the save returns, stores the name the save returned in the row;
  an upload with the empty name is falsy and is handled so too. When it receives a
  falsy value that is not a newly uploaded file, for a setting whose model field is a
  \<open>FileField\<close>, it deletes the stored name the row held and stores the falsy value in
  the row. In \<open>save_model\<close>, for a \<open>FileField\<close> that is not an internal field, a
  cleaned value \<open>False\<close> is written as \<open>None\<close> through the accessor, and a cleaned
  value \<open>None\<close> or \<open>""\<close> writes nothing: the world stays as it is.
  The stored name the row held is the \<open>name\<close> of a file object (the empty string when
  that name is falsy) and the value itself otherwise; the basename of a path is what
  follows its last slash.
\<close>

theorem stored_file_lifecycle:
  "(\<forall>a m s pk r gs saved st2.
      split_label l = Inr (a, m, s)
      \<and> objects_get (db w) (a @ ''.'' @ m) s = Inr (pk, r)
      \<and> touch_last_modified fw (s_group_name r) (setting_groups (db w)) = Inr gs
      \<and> storage_save fw
           (''app_settings/'' @ a @ ''/'' @ m @ ''/'' @ s @ ''/''
              @ (if basename fname = [] then ''upload'' else basename fname))
           (PFile PlainFile (PStr fname) content)
           (if truthy (extract_storage_value (s_value r))
            then snd (storage_delete fw (extract_storage_value (s_value r)) (store w))
            else store w)
          = (Inr saved, st2)
      \<longrightarrow> setitem fw l (PFile PlainFile (PStr fname) content) w =
            (Inr (),
             \<lparr>db = (db w)\<lparr>setting_groups := gs,
                    app_settings := (app_settings (db w))[pk := r\<lparr>s_value := PStr saved\<rparr>]\<rparr>,
              store = st2\<rparr>))
   \<and> (\<forall>a m s pk r gs.
      split_label l = Inr (a, m, s)
      \<and> objects_get (db w) (a @ ''.'' @ m) s = Inr (pk, r)
      \<and> touch_last_modified fw (s_group_name r) (setting_groups (db w)) = Inr gs
      \<and> \<not> truthy v \<and> \<not> is_new_upload v \<and> is_file_setting fw (a @ ''.'' @ m) s
      \<longrightarrow> setitem fw l v w =
            (Inr (),
             \<lparr>db = (db w)\<lparr>setting_groups := gs,
                    app_settings := (app_settings (db w))[pk := r\<lparr>s_value := v\<rparr>]\<rparr>,
              store = (if truthy (extract_storage_value (s_value r))
                       then snd (storage_delete fw (extract_storage_value (s_value r)) (store w))
                       else store w)\<rparr>))
   \<and> (\<forall>field.
      field_name \<notin> set (internal_fields obj)
      \<and> get_field obj field_name = Inr field \<and> isinstance_FileField field
      \<longrightarrow> save_model fw obj ((field_name, PBool False) # rest) w =
            (case setitem fw (name_from_class obj @ ''.'' @ field_name) PNone w of
               (Inl e, w') \<Rightarrow> (Inl e, w')
             | (Inr u, w') \<Rightarrow> save_model fw obj rest w')
          \<and> save_model fw obj ((field_name, PNone) # rest) w = save_model fw obj rest w
          \<and> save_model fw obj ((field_name, PStr []) # rest) w = save_model fw obj rest w
          \<and> save_model fw obj [(field_name, PNone)] w = (Inr (), w)
          \<and> save_model fw obj [(field_name, PStr [])] w = (Inr (), w))
   \<and> (\<forall>k nm c. extract_storage_value (PFile k nm c) = (if truthy nm then nm else PStr []))
   \<and> (\<forall>x. \<not> isinstance_File x \<longrightarrow> extract_storage_value x = x)
   \<and> (\<forall>d b. CHR ''/'' \<notin> set b \<longrightarrow> basename (d @ ''/'' @ b) = b \<and> basename b = b)"
proof (intro conjI allI impI)
  fix a m s pk r gs saved st2
  let ?v = "PFile PlainFile (PStr fname) content"
  assume h: "split_label l = Inr (a, m, s)
      \<and> objects_get (db w) (a @ ''.'' @ m) s = Inr (pk, r)
      \<and> touch_last_modified fw (s_group_name r) (setting_groups (db w)) = Inr gs
      \<and> storage_save fw
           (''app_settings/'' @ a @ ''/'' @ m @ ''/'' @ s @ ''/''
              @ (if basename fname = [] then ''upload'' else basename fname))
           ?v
           (if truthy (extract_storage_value (s_value r))
            then snd (storage_delete fw (extract_storage_value (s_value r)) (store w))
            else store w)
          = (Inr saved, st2)"
  have p: "storage_path_for a m s (file_name ?v) =
             Inr (''app_settings/'' @ a @ ''/'' @ m @ ''/'' @ s @ ''/''
                    @ (if basename fname = [] then ''upload'' else basename fname))"
    by (simp add: storage_path_for_def)
  have u: "is_new_upload ?v" by simp
  from h have sv: "storage_save fw
           (''app_settings/'' @ a @ ''/'' @ m @ ''/'' @ s @ ''/''
              @ (if basename fname = [] then ''upload'' else basename fname))
           ?v
           (snd (delete_storage_name fw (extract_storage_value (s_value r)) (store w)))
          = (Inr saved, st2)"
    by (simp only: delete_storage_name_store)
  from h have sp: "split_label l = Inr (a, m, s)"
    and g: "objects_get (db w) (a @ ''.'' @ m) s = Inr (pk, r)"
    and t: "touch_last_modified fw (s_group_name r) (setting_groups (db w)) = Inr gs"
    by simp_all
  from setitem_new_upload [OF sp g t u p sv]
  show "setitem fw l ?v w =
            (Inr (),
             \<lparr>db = (db w)\<lparr>setting_groups := gs,
                    app_settings := (app_settings (db w))[pk := r\<lparr>s_value := PStr saved\<rparr>]\<rparr>,
              store = st2\<rparr>)"
    by (simp add: row_save_def)
next
  fix a m s pk r gs
  assume h: "split_label l = Inr (a, m, s)
      \<and> objects_get (db w) (a @ ''.'' @ m) s = Inr (pk, r)
      \<and> touch_last_modified fw (s_group_name r) (setting_groups (db w)) = Inr gs
      \<and> \<not> truthy v \<and> \<not> is_new_upload v \<and> is_file_setting fw (a @ ''.'' @ m) s"
  then have sp: "split_label l = Inr (a, m, s)"
    and g: "objects_get (db w) (a @ ''.'' @ m) s = Inr (pk, r)"
    and t: "touch_last_modified fw (s_group_name r) (setting_groups (db w)) = Inr gs"
    and nu: "\<not> is_new_upload v"
    by simp_all
  from setitem_plain_value [OF sp g t nu] h
  show "setitem fw l v w =
            (Inr (),
             \<lparr>db = (db w)\<lparr>setting_groups := gs,
                    app_settings := (app_settings (db w))[pk := r\<lparr>s_value := v\<rparr>]\<rparr>,
              store = (if truthy (extract_storage_value (s_value r))
                       then snd (storage_delete fw (extract_storage_value (s_value r)) (store w))
                       else store w)\<rparr>)"
    by (simp add: row_save_def delete_storage_name_store)
next
  fix field
  assume h: "field_name \<notin> set (internal_fields obj)
      \<and> get_field obj field_name = Inr field \<and> isinstance_FileField field"
  then have i: "field_name \<notin> set (internal_fields obj)"
    and f: "get_field obj field_name = Inr field" and ff: "isinstance_FileField field"
    by simp_all
  show "save_model fw obj ((field_name, PBool False) # rest) w =
            (case setitem fw (name_from_class obj @ ''.'' @ field_name) PNone w of
               (Inl e, w') \<Rightarrow> (Inl e, w')
             | (Inr u, w') \<Rightarrow> save_model fw obj rest w')"
    by (rule save_model_file_field(1) [OF i f ff])
  show "save_model fw obj ((field_name, PNone) # rest) w = save_model fw obj rest w"
    by (rule save_model_file_field(2) [OF i f ff]) simp_all
  show "save_model fw obj ((field_name, PStr []) # rest) w = save_model fw obj rest w"
    by (rule save_model_file_field(2) [OF i f ff]) simp_all
  show "save_model fw obj [(field_name, PNone)] w = (Inr (), w)"
    using save_model_file_field(2) [OF i f ff, of PNone fw "[]" w] by simp
  show "save_model fw obj [(field_name, PStr [])] w = (Inr (), w)"
    using save_model_file_field(2) [OF i f ff, of "PStr []" fw "[]" w] by simp
next
  fix k nm c
  show "extract_storage_value (PFile k nm c) = (if truthy nm then nm else PStr [])"
    by (simp add: extract_storage_value_def)
next
  fix x assume "\<not> isinstance_File x"
  then show "extract_storage_value x = x"
    by (simp add: extract_storage_value_def)
next
  fix d b assume "CHR ''/'' \<notin> set b"
  then show "basename (d @ ''/'' @ b) = b" and "basename b = b"
    by (rule basename_after_slash, rule basename_no_slash)
qed

lemma split_label_site_logo: "split_label ''shop.site.logo'' = Inr (''shop'', ''site'', ''logo'')"
  by (simp add: split_label_def unpack3_def)

lemma objects_get_site_logo:
  "objects_get (db site_world) (''shop'' @ ''.'' @ ''site'') ''logo''
     = Inr (1, \<lparr>s_group_name = ''shop.site'', s_name = ''logo'',
                s_value = PStr ''app_settings/shop/site/logo/old.png''\<rparr>)"
  by (simp add: objects_get_def matching_def site_world_def site_db_def upt_rec)

lemma touch_site:
  "touch_last_modified mem_framework ''shop.site'' (setting_groups (db site_world))
     = Inr [(''shop.site'', 8)]"
  by (simp add: mem_framework_def site_world_def site_db_def)

lemma is_file_setting_site_logo: "is_file_setting mem_framework (''shop'' @ ''.'' @ ''site'') ''logo''"
  by (simp add: is_file_setting_def setting_model_field_def mem_framework_def get_field_def
      site_model_def)

lemma basename_tmp_new: "basename ''/tmp/new.png'' = ''new.png''"
  by (simp add: basename_def)

theorem stored_file_lifecycle_witness:
  "setitem mem_framework ''shop.site.logo'' (PFile PlainFile (PStr ''/tmp/new.png'') ''NEW'') site_world =
     (Inr (),
      \<lparr>db = site_db\<lparr>setting_groups := [(''shop.site'', 8)],
             app_settings :=
               [\<lparr>s_group_name = ''shop.site'', s_name = ''title'', s_value = PStr ''My shop''\<rparr>,
                \<lparr>s_group_name = ''shop.site'', s_name = ''logo'',
                 s_value = PStr ''app_settings/shop/site/logo/new.png''\<rparr>]\<rparr>,
       store = [(''app_settings/shop/site/logo/new.png'', ''NEW'')]\<rparr>)
   \<and> setitem mem_framework ''shop.site.logo'' PNone site_world =
     (Inr (),
      \<lparr>db = site_db\<lparr>setting_groups := [(''shop.site'', 8)],
             app_settings :=
               [\<lparr>s_group_name = ''shop.site'', s_name = ''title'', s_value = PStr ''My shop''\<rparr>,
                \<lparr>s_group_name = ''shop.site'', s_name = ''logo'', s_value = PNone\<rparr>]\<rparr>,
       store = []\<rparr>)
   \<and> save_model mem_framework site_model [(''logo'', PBool False)] site_world
       = setitem mem_framework ''shop.site.logo'' PNone site_world
   \<and> save_model mem_framework site_model [(''logo'', PNone)] site_world = (Inr (), site_world)
   \<and> save_model mem_framework site_model [(''logo'', PStr [])] site_world = (Inr (), site_world)"
proof -
  let ?old = "PStr ''app_settings/shop/site/logo/old.png''"
  let ?r = "\<lparr>s_group_name = ''shop.site'', s_name = ''logo'', s_value = ?old\<rparr>"
  let ?up = "PFile PlainFile (PStr ''/tmp/new.png'') ''NEW''"
  have del: "snd (storage_delete mem_framework ?old (store site_world)) = []"
    by (simp add: mem_framework_def mem_delete_def site_world_def)
  have sv: "storage_save mem_framework ''app_settings/shop/site/logo/new.png'' ?up []
              = (Inr ''app_settings/shop/site/logo/new.png'',
                 [(''app_settings/shop/site/logo/new.png'', ''NEW'')])"
    by (simp add: mem_framework_def mem_save_def Let_def)
  have d: "db site_world = site_db"
    by (simp add: site_world_def)
  have i: "''logo'' \<notin> set (internal_fields site_model)"
    and f: "get_field site_model ''logo'' = Inr FileField"
    and n: "name_from_class site_model = ''shop.site''"
    by (simp_all add: site_model_def get_field_def)
  note lc = stored_file_lifecycle
    [of "''shop.site.logo''" site_world mem_framework "''/tmp/new.png''" "''NEW''" PNone
        "''logo''" site_model "[]"]
  have 1: "setitem mem_framework ''shop.site.logo'' ?up site_world =
     (Inr (),
      \<lparr>db = site_db\<lparr>setting_groups := [(''shop.site'', 8)],
             app_settings :=
               [\<lparr>s_group_name = ''shop.site'', s_name = ''title'', s_value = PStr ''My shop''\<rparr>,
                \<lparr>s_group_name = ''shop.site'', s_name = ''logo'',
                 s_value = PStr ''app_settings/shop/site/logo/new.png''\<rparr>]\<rparr>,
       store = [(''app_settings/shop/site/logo/new.png'', ''NEW'')]\<rparr>)"
    using lc split_label_site_logo objects_get_site_logo touch_site sv
    by (simp add: extract_storage_value_def del basename_tmp_new d site_db_def)
  have 2: "setitem mem_framework ''shop.site.logo'' PNone site_world =
     (Inr (),
      \<lparr>db = site_db\<lparr>setting_groups := [(''shop.site'', 8)],
             app_settings :=
               [\<lparr>s_group_name = ''shop.site'', s_name = ''title'', s_value = PStr ''My shop''\<rparr>,
                \<lparr>s_group_name = ''shop.site'', s_name = ''logo'', s_value = PNone\<rparr>]\<rparr>,
       store = []\<rparr>)"
    using lc split_label_site_logo objects_get_site_logo touch_site is_file_setting_site_logo
    by (simp add: extract_storage_value_def del d site_db_def)
  from i f have prem: "''logo'' \<notin> set (internal_fields site_model)
      \<and> get_field site_model ''logo'' = Inr FileField \<and> isinstance_FileField FileField"
    by simp
  note sm = lc [THEN conjunct2, THEN conjunct2, THEN conjunct1, rule_format, OF prem]
  have 3: "save_model mem_framework site_model [(''logo'', PBool False)] site_world
       = setitem mem_framework ''shop.site.logo'' PNone site_world"
    using sm [THEN conjunct1] by (simp add: n 2 del: save_model.simps(2))
  have 4: "save_model mem_framework site_model [(''logo'', PNone)] site_world = (Inr (), site_world)"
    using sm by (simp del: save_model.simps(2))
  have 5: "save_model mem_framework site_model [(''logo'', PStr [])] site_world = (Inr (), site_world)"
    using sm by (simp del: save_model.simps(2))
  from 1 2 3 4 5 show ?thesis by (simp del: save_model.simps(2))
qed

lemma setitem_site_unnamed_upload:
  "setitem mem_framework ''shop.site.logo'' (PFile PlainFile PNone ''NEW'') site_world =
     (Inl TypeError, \<lparr>db = site_db\<lparr>setting_groups := [(''shop.site'', 8)]\<rparr>, store = []\<rparr>)"
  by (simp add: setitem_def split_label_def unpack3_def objects_get_def matching_def
      site_world_def site_db_def upt_rec mem_framework_def Let_def extract_storage_value_def
      delete_storage_name_def mem_delete_def storage_path_for_def)

lemma setitem_site_empty_name_upload:
  "setitem mem_framework ''shop.site.logo'' (PFile PlainFile (PStr []) ''NEW'') site_world =
     (Inr (),
      \<lparr>db = site_db\<lparr>setting_groups := [(''shop.site'', 8)],
             app_settings :=
               [\<lparr>s_group_name = ''shop.site'', s_name = ''title'', s_value = PStr ''My shop''\<rparr>,
                \<lparr>s_group_name = ''shop.site'', s_name = ''logo'',
                 s_value = PStr ''app_settings/shop/site/logo/upload''\<rparr>]\<rparr>,
       store = [(''app_settings/shop/site/logo/upload'', ''NEW'')]\<rparr>)"
  by (simp add: setitem_def split_label_def unpack3_def objects_get_def matching_def
      site_world_def site_db_def upt_rec mem_framework_def Let_def extract_storage_value_def
      delete_storage_name_def mem_delete_def mem_save_def storage_path_for_def basename_def
      row_save_def)

text \<open>
  The claim as worded covers every \<open>File\<close> that is not a \<open>FieldFile\<close> and every falsy
  value. An unnamed upload (\<open>name\<close> is \<open>None\<close>) has the old file deleted and then
  \<open>TypeError\<close> raised by \<open>os.path.basename\<close>: nothing is saved and the row still names
  the deleted file. An upload with the empty name is a falsy value for a \<open>FileField\<close>
  setting, and what the row stores is the saved name, not the falsy value.
\<close>

theorem unnamed_upload_counterexample:
  "is_new_upload (PFile PlainFile PNone ''NEW'')
   \<and> fst (setitem mem_framework ''shop.site.logo'' (PFile PlainFile PNone ''NEW'') site_world)
        = Inl TypeError
   \<and> store site_world = [(''app_settings/shop/site/logo/old.png'', ''OLD'')]
   \<and> store (snd (setitem mem_framework ''shop.site.logo'' (PFile PlainFile PNone ''NEW'')
                     site_world)) = []
   \<and> s_value (app_settings (db (snd (setitem mem_framework ''shop.site.logo''
                     (PFile PlainFile PNone ''NEW'') site_world))) ! 1)
        = PStr ''app_settings/shop/site/logo/old.png''
   \<and> \<not> truthy (PFile PlainFile (PStr []) ''NEW'')
   \<and> is_file_setting mem_framework ''shop.site'' ''logo''
   \<and> s_value (app_settings (db (snd (setitem mem_framework ''shop.site.logo''
                     (PFile PlainFile (PStr []) ''NEW'') site_world))) ! 1)
        = PStr ''app_settings/shop/site/logo/upload''
   \<and> PStr ''app_settings/shop/site/logo/upload'' \<noteq> PFile PlainFile (PStr []) ''NEW''"
proof -
  have st: "store site_world = [(''app_settings/shop/site/logo/old.png'', ''OLD'')]"
    by (simp add: site_world_def)
  have row: "s_value (app_settings (site_db\<lparr>setting_groups := [(''shop.site'', 8)]\<rparr>) ! 1)
               = PStr ''app_settings/shop/site/logo/old.png''"
    by (simp add: site_db_def)
  from is_file_setting_site_logo have f: "is_file_setting mem_framework ''shop.site'' ''logo''"
    by simp
  from st row f show ?thesis
    by (simp add: setitem_site_unnamed_upload setitem_site_empty_name_upload)
qed

section \<open>Opening the change form\<close>

text \<open>
  A GET by a user who may view the group reads the stored settings and renders the form,
  inside the same atomic block and without changing the world. When a stored setting is
  named like an attribute of the model instance that is not a model field,
  \<open>_meta.get_field\<close> raises \<open>FieldDoesNotExist\<close> and so does the view.
\<close>

lemma changeform_view_get_site:
  "changeform_view mem_framework site_model
     \<lparr>http_method = ''GET'', has_change_permission = False, has_view_permission = True,
      form_cleaned_data = None, formsets_valid = True\<rparr> site_world
   = (Inr ChangeForm, site_world)"
  by (simp add: changeform_view_def atomic_def changeform_view_inner_def groups_get_def
      get_changeform_initial_data_def has_view_or_change_permission_def dict_of_def dict_pop_def
      hasattr_def get_field_def site_world_def site_db_def site_model_def Let_def)

lemma changeform_view_get_attribute_not_field:
  "fst (changeform_view mem_framework site_model
     \<lparr>http_method = ''GET'', has_change_permission = False, has_view_permission = True,
      form_cleaned_data = None, formsets_valid = True\<rparr>
     \<lparr>db = site_db\<lparr>app_settings :=
             [\<lparr>s_group_name = ''shop.site'', s_name = ''save'', s_value = PInt 1\<rparr>]\<rparr>,
      store = []\<rparr>)
   = Inl FieldDoesNotExist"
  by (simp add: changeform_view_def atomic_def changeform_view_inner_def groups_get_def
      get_changeform_initial_data_def has_view_or_change_permission_def dict_of_def dict_pop_def
      hasattr_def get_field_def site_db_def site_model_def Let_def)

end
